theory Spec2Isabelle
  imports Complex_Main "HOL-Library.Sublist"
begin

section \<open>HarmonyViz: the audio-graph lifecycle of the AudioVisualizer component\<close>

text \<open>
  The repository holds four revisions of one React component:
  \<^item> \<^verbatim>\<open>src/components/AudioVisualizer.tsx\<close>, microphone only (suffix \<open>_av\<close>);
  \<^item> \<^verbatim>\<open>src/unnamed/part_000\<close>, microphone and uploaded file, one audio context per
    activation (suffix \<open>_p0\<close>);
  \<^item> the first component of \<^verbatim>\<open>src/components/temp.tsx\<close> (lines 1-401), one shared audio
    context, preset tracks, a \<open>busy\<close> flag (suffix \<open>_t1\<close>);
  \<^item> the second component of \<^verbatim>\<open>src/components/temp.tsx\<close> (lines 402-802), preset tracks,
    one audio context per activation (suffix \<open>_t2\<close>).
  \<open>fitCanvas\<close>, \<open>clearCanvas\<close>, \<open>stopRenderLoop\<close> and \<open>draw\<close> have the same body in all
  four; \<open>teardownContext\<close> has the same body in \<open>_p0\<close> and \<open>_t2\<close>.

  The component's refs and React state are the fields of one record, together with the
  part of the host (browser) that the code acts on: the canvas, the frame callbacks that
  are scheduled, the connections of the audio graph, the capture streams whose tracks
  run, and a log of the host calls in the order they are made. Numbers that are
  JavaScript doubles in the source are rationals here; the products that \<open>fitCanvas\<close>
  floors are rounded the way doubles are.
\<close>

subsection \<open>Data\<close>

datatype Mode = Idle | Mic | File

datatype style = Black | Fade | Hsl rat

type_synonym fill = "style \<times> rat \<times> rat \<times> rat \<times> rat"

record canvas =
  width :: int
  height :: int
  fills :: "fill list"

datatype target = Node nat | Destination nat

datatype event =
    RequestFrame nat
  | CancelFrame nat
  | GetByteFrequencyData nat
  | ClearRect rat rat rat rat
  | FillRect style rat rat rat rat
  | GetUserMedia
  | NewAudioContext nat
  | Suspend nat
  | Close nat
  | Connect nat target
  | Disconnect nat
  | TrackStop nat
  | SourceStart nat
  | SourceStop nat
  | ArrayBuffer
  | DecodeAudioData nat
  | Play
  | Pause
  | DetachOnended

text \<open>What an awaited host promise settles to; a rejection carries \<open>e?.message\<close>.\<close>

datatype outcome = Resolved | Rejected "string option"

record analyser =
  an_id :: nat
  fftSize :: nat
  smoothingTimeConstant :: rat

text \<open>The host's \<open>AnalyserNode.frequencyBinCount\<close>: half the window size.\<close>

definition frequencyBinCount :: "analyser \<Rightarrow> nat" where
  "frequencyBinCount a = fftSize a div 2"

text \<open>An \<open>HTMLAudioElement\<close>: \<open>onended\<close> tells whether a handler is attached, \<open>has_source\<close>
  whether the host has made a \<open>MediaElementAudioSourceNode\<close> for the element before.\<close>

record audio_el =
  src :: string
  currentTime :: rat
  muted :: bool
  onended :: bool
  has_source :: bool

record track =
  track_id :: string
  url :: string

record state =
  audioCtxRef :: "nat option"
  analyserRef :: "analyser option"
  micSourceRef :: "nat option"
  micStreamRef :: "nat option"
  fileSourceRef :: "nat option"
  audioElRef :: "audio_el option"
  mediaElSourceRef :: "nat option"
  dataArrayRef :: "(nat \<times> nat list) option"
  rafIdRef :: "nat option"
  mode :: Mode
  isMicOn :: bool
  isFilePlaying :: bool
  fileName :: "string option"
  currentTrackId :: "string option"
  busy :: bool
  error :: "string option"
  canvas :: "canvas option"
  rect_width :: rat
  rect_height :: rat
  devicePixelRatio :: rat
  spectrum :: "nat list"
  scheduled :: "nat list"
  edges :: "(nat \<times> target) list"
  live_streams :: "nat list"
  ended_hooks :: "nat list"
  host_single_source :: bool
  trace :: "event list"
  next_id :: nat

text \<open>
  \<open>micSourceRef\<close> and \<open>micStreamRef\<close> are \<open>sourceRef\<close> and \<open>streamRef\<close> in
  \<^verbatim>\<open>AudioVisualizer.tsx\<close>. \<open>dataArrayRef\<close> holds the identity of the buffer and its
  bytes. \<open>spectrum\<close> is what the analyser would report now; \<open>ended_hooks\<close> are the buffer
  source nodes that carry an \<open>onended\<close> handler. \<open>canvas = None\<close> is a component whose
  canvas element is not mounted; a mounted canvas always yields its 2D context.
  \<open>host_single_source\<close> tells whether the host makes at most one
  \<open>MediaElementAudioSourceNode\<close> per media element (Chromium and WebKit throw an
  \<open>InvalidStateError\<close> at the second \<open>createMediaElementSource\<close>) or any number.
\<close>

subsection \<open>Host primitives\<close>

definition emit :: "event \<Rightarrow> state \<Rightarrow> state" where
  "emit e s = s\<lparr>trace := trace s @ [e]\<rparr>"

definition connect :: "nat \<Rightarrow> target \<Rightarrow> state \<Rightarrow> state" where
  "connect n t s = emit (Connect n t) (s\<lparr>edges := edges s @ [(n, t)]\<rparr>)"

text \<open>\<open>node.disconnect()\<close> without arguments removes every outgoing connection.\<close>

definition disconnect :: "nat \<Rightarrow> state \<Rightarrow> state" where
  "disconnect n s = emit (Disconnect n) (s\<lparr>edges := filter (\<lambda>e. fst e \<noteq> n) (edges s)\<rparr>)"

definition stopTracks :: "nat \<Rightarrow> state \<Rightarrow> state" where
  "stopTracks st s = emit (TrackStop st) (s\<lparr>live_streams := removeAll st (live_streams s)\<rparr>)"

definition bump :: "state \<Rightarrow> state" where
  "bump s = s\<lparr>next_id := Suc (next_id s)\<rparr>"

subsection \<open>Double precision\<close>

text \<open>
  A JavaScript number is an IEEE 754 binary64, and an arithmetic operation returns the exact
  result rounded to the nearest such number, a tie going to the even significand.
  \<open>binary64 x\<close> is that rounding of the rational \<open>x\<close>: 53 significant bits, the unit in
  the last place not below \<open>2\<^sup>-\<^sup>1\<^sup>0\<^sup>7\<^sup>4\<close>. Magnitudes from \<open>2\<^sup>1\<^sup>0\<^sup>2\<^sup>4\<close> on, which a double
  rounds to infinity, are outside of this model.
\<close>

text \<open>The number of binary digits of \<open>n\<close>.\<close>

function bits :: "int \<Rightarrow> nat" where
  "bits n = (if n \<le> 0 then 0 else Suc (bits (n div 2)))"
  by pat_completeness auto

termination
  by (relation "measure nat") auto

declare bits.simps [simp del]

text \<open>For \<open>0 < x\<close>, the \<open>e\<close> with \<open>2\<^sup>e \<le> x < 2\<^sup>e\<^sup>+\<^sup>1\<close>.\<close>

definition exponent :: "rat \<Rightarrow> int" where
  "exponent x = (if 1 \<le> x then int (bits \<lfloor>x\<rfloor>) - 1 else - int (bits (\<lceil>1 / x\<rceil> - 1)))"

definition pow2 :: "int \<Rightarrow> rat" where
  "pow2 e = (if 0 \<le> e then 2 ^ nat e else 1 / 2 ^ nat (- e))"

definition ties_even :: "rat \<Rightarrow> int" where
  "ties_even q =
    (let f = \<lfloor>q\<rfloor>; r = q - of_int f
     in if r < 1 / 2 then f else if 1 / 2 < r then f + 1 else if even f then f else f + 1)"

definition binary64 :: "rat \<Rightarrow> rat" where
  "binary64 x =
    (if x = 0 then 0
     else let u = pow2 (max (exponent \<bar>x\<bar>) (- 1022) - 52)
          in of_int (ties_even (x / u)) * u)"

subsection \<open>Canvas\<close>

text \<open>\<open>rect.width * dpr\<close> is a product of doubles; \<open>Math.floor\<close> and \<open>Math.max\<close> are exact.
  \<open>window.devicePixelRatio || 1\<close> replaces a ratio of 0.\<close>

definition fitCanvas :: "state \<Rightarrow> state" where
  "fitCanvas s =
    (case canvas s of
       None \<Rightarrow> s
     | Some c \<Rightarrow>
         let dpr = (if devicePixelRatio s = 0 then 1 else devicePixelRatio s)
         in s\<lparr>canvas := Some (c\<lparr>width := max 1 \<lfloor>binary64 (rect_width s * dpr)\<rfloor>,
                                  height := max 1 \<lfloor>binary64 (rect_height s * dpr)\<rfloor>\<rparr>)\<rparr>)"

definition clearCanvas :: "state \<Rightarrow> state" where
  "clearCanvas s =
    (case canvas s of
       None \<Rightarrow> s
     | Some c \<Rightarrow>
         let W = of_int (width c); H = of_int (height c)
         in s\<lparr>canvas := Some (c\<lparr>fills := [(Black, 0, 0, W, H)]\<rparr>),
               trace := trace s @ [ClearRect 0 0 W H, FillRect Black 0 0 W H]\<rparr>)"

definition blanked :: "state \<Rightarrow> bool" where
  "blanked s =
    (case canvas s of
       None \<Rightarrow> True
     | Some c \<Rightarrow> fills c = [(Black, 0, 0, of_int (width c), of_int (height c))])"

subsection \<open>Render loop\<close>

definition stopRenderLoop :: "state \<Rightarrow> state" where
  "stopRenderLoop s =
    (case rafIdRef s of
       None \<Rightarrow> s
     | Some r \<Rightarrow> emit (CancelFrame r) (s\<lparr>scheduled := removeAll r (scheduled s), rafIdRef := None\<rparr>))"

text \<open>
  \<open>getByteFrequencyData\<close> overwrites the buffer with the current spectrum; the buffer
  keeps its length.
\<close>

definition sample :: "nat list \<Rightarrow> nat list \<Rightarrow> nat list" where
  "sample sp d = take (length d) sp @ drop (length sp) d"

definition hue :: "nat \<Rightarrow> nat \<Rightarrow> rat" where
  "hue i n = (of_nat i / of_nat n) * 300"

definition barH :: "rat \<Rightarrow> nat \<Rightarrow> rat" where
  "barH H v = (of_nat v / 255) * (H * (9 / 10))"

definition barW :: "rat \<Rightarrow> nat \<Rightarrow> rat" where
  "barW W n = (W / of_nat n) * (11 / 5)"

text \<open>The \<open>for\<close> loop of \<open>draw\<close>: \<open>i\<close> is the index, \<open>x\<close> the running offset, the list the
  bins from index \<open>i\<close> on.\<close>

fun bars :: "rat \<Rightarrow> rat \<Rightarrow> nat \<Rightarrow> nat \<Rightarrow> rat \<Rightarrow> nat list \<Rightarrow> fill list" where
  "bars H bw n i x [] = []"
| "bars H bw n i x (v # vs) =
     (Hsl (hue i n), x, H - barH H v, bw, barH H v) # bars H bw n (Suc i) (x + bw + 1) vs"

definition paint :: "fill \<Rightarrow> event" where
  "paint f = (case f of (c, x, y, w, h) \<Rightarrow> FillRect c x y w h)"

text \<open>What one frame paints: the fade overlay over the whole surface, then the bars.\<close>

definition frame_fills :: "canvas \<Rightarrow> nat list \<Rightarrow> fill list" where
  "frame_fills c d =
    (let W = of_int (width c); H = of_int (height c); n = length d
     in (Fade, 0, 0, W, H) # bars H (barW W n) n 0 0 d)"

definition draw :: "state \<Rightarrow> state" where
  "draw s =
    (case (canvas s, analyserRef s, dataArrayRef s) of
       (Some c, Some a, Some (b, d)) \<Rightarrow>
         let r = next_id s;
             d' = sample (spectrum s) d;
             fs = frame_fills c d'
         in s\<lparr>rafIdRef := Some r,
               scheduled := scheduled s @ [r],
               next_id := Suc r,
               dataArrayRef := Some (b, d'),
               canvas := Some (c\<lparr>fills := fills c @ fs\<rparr>),
               trace := trace s @ [RequestFrame r, GetByteFrequencyData (an_id a)] @ map paint fs\<rparr>
     | _ \<Rightarrow> s)"

text \<open>The host runs a scheduled frame callback: it leaves the schedule and \<open>draw\<close> runs.\<close>

definition fireFrame :: "nat \<Rightarrow> state \<Rightarrow> state" where
  "fireFrame r s = (if r \<in> set (scheduled s) then draw (s\<lparr>scheduled := removeAll r (scheduled s)\<rparr>) else s)"

subsection \<open>Asynchronous functions\<close>

text \<open>
  An \<open>async\<close> function runs until it awaits a promise of the host that is still pending;
  there it stops and the rest of it is a stack of frames, the innermost call first. Other
  callbacks may run before the host settles the promise and the stack is resumed. An
  \<open>await\<close> of a promise that is settled already (an \<open>async\<close> function that returned
  without waiting) continues at once. The host calls \<open>disconnect\<close>, \<open>stop\<close>, \<open>pause\<close>,
  \<open>cancelAnimationFrame\<close> and the constructors are taken not to throw
  (\<open>createMediaElementSource\<close> for a second time apart); the promises of
  \<open>getUserMedia\<close>, \<open>suspend\<close>, \<open>close\<close>, \<open>arrayBuffer\<close>, \<open>decodeAudioData\<close> and \<open>play\<close>
  may reject.
\<close>

datatype frame =
    TD_suspend
  | TD_close
  | StopMic_av_suspend
  | StopMic_av_close
  | StartMic_av_gum
  | StopMic_p0_td
  | StopFile_p0_td
  | Ended_p0_td
  | StartMic_p0_stop
  | StartMic_p0_gum
  | StartFile_p0_stop string
  | StartFile_p0_buf string
  | StartFile_p0_decode string nat analyser
  | StartMic_t1_gum
  | StartPreset_t1_play track
  | StopPreset_t2_td
  | Ended_t2_td
  | StartPreset_t2_stopMic track
  | StartPreset_t2_stopPreset track
  | StartPreset_t2_play track

type_synonym task = "state \<times> frame list"

text \<open>\<open>await f(); rest\<close>: if \<open>f\<close> is waiting, \<open>rest\<close> becomes the frame \<open>k\<close> under it.\<close>

definition await :: "task \<Rightarrow> frame \<Rightarrow> (state \<Rightarrow> task) \<Rightarrow> task" where
  "await r k rest = (case r of (s, fs) \<Rightarrow> if fs = [] then rest s else (s, fs @ [k]))"

definition fresh :: "state \<Rightarrow> nat \<times> state" where
  "fresh s = (next_id s, bump s)"

text \<open>\<open>e?.message ?? d\<close>.\<close>

definition message :: "string option \<Rightarrow> string \<Rightarrow> string" where
  "message m d = (case m of None \<Rightarrow> d | Some t \<Rightarrow> t)"

text \<open>\<open>createAnalyser\<close> with \<open>fftSize = 256\<close> and \<open>smoothingTimeConstant = 0.8\<close>.\<close>

definition createAnalyser :: "state \<Rightarrow> analyser \<times> state" where
  "createAnalyser s = (\<lparr>an_id = next_id s, fftSize = 256, smoothingTimeConstant = 4 / 5\<rparr>, bump s)"

definition newAudioContext :: "state \<Rightarrow> nat \<times> state" where
  "newAudioContext s = (next_id s, emit (NewAudioContext (next_id s)) (bump s))"

text \<open>The capture stream that a resolved \<open>getUserMedia\<close> hands over: its tracks run.\<close>

definition newStream :: "state \<Rightarrow> nat \<times> state" where
  "newStream s = (next_id s, (bump s)\<lparr>live_streams := live_streams s @ [next_id s]\<rparr>)"

text \<open>\<open>new Uint8Array(n)\<close>: \<open>n\<close> zero bytes in a buffer of its own.\<close>

definition newUint8Array :: "nat \<Rightarrow> state \<Rightarrow> (nat \<times> nat list) \<times> state" where
  "newUint8Array n s = ((next_id s, replicate n 0), bump s)"

definition setMode :: "(Mode \<Rightarrow> Mode) \<Rightarrow> state \<Rightarrow> state" where
  "setMode f s = s\<lparr>mode := f (mode s)\<rparr>"

subsection \<open>\<open>teardownContext\<close> (part\_000 and the second component of temp.tsx)\<close>

definition td_finally :: "state \<Rightarrow> state" where
  "td_finally s = s\<lparr>audioCtxRef := None, analyserRef := None, dataArrayRef := None\<rparr>"

definition teardownContext :: "state \<Rightarrow> task" where
  "teardownContext s =
    (case audioCtxRef s of
       None \<Rightarrow> (td_finally s, [])
     | Some c \<Rightarrow> (emit (Suspend c) s, [TD_suspend]))"

text \<open>After \<open>suspend()\<close> settled (either way): \<open>audioCtxRef.current.close()\<close> reads the ref
  again; on \<open>null\<close> the \<open>TypeError\<close> is caught and \<open>finally\<close> runs.\<close>

definition td_suspended :: "state \<Rightarrow> task" where
  "td_suspended s =
    (case audioCtxRef s of
       None \<Rightarrow> (td_finally s, [])
     | Some c \<Rightarrow> (emit (Close c) s, [TD_close]))"

subsection \<open>AudioVisualizer.tsx\<close>

text \<open>The \<open>try\<close> body of \<open>startMic\<close> from the resolved \<open>getUserMedia\<close> to
  \<open>dataArrayRef.current = dataArray\<close>; it reads the same in part\_000.\<close>

definition wireMic :: "state \<Rightarrow> state" where
  "wireMic s =
    (let (stream, s) = newStream s;
         s = s\<lparr>micStreamRef := Some stream\<rparr>;
         (audioCtx, s) = newAudioContext s;
         s = s\<lparr>audioCtxRef := Some audioCtx\<rparr>;
         (analyser, s) = createAnalyser s;
         s = s\<lparr>analyserRef := Some analyser\<rparr>;
         (source, s) = fresh s;
         s = s\<lparr>micSourceRef := Some source\<rparr>;
         s = connect source (Node (an_id analyser)) s;
         (dataArray, s) = newUint8Array (frequencyBinCount analyser) s
     in s\<lparr>dataArrayRef := Some dataArray\<rparr>)"

definition startMic_av :: "state \<Rightarrow> task" where
  "startMic_av s = (emit GetUserMedia (s\<lparr>error := None\<rparr>), [StartMic_av_gum])"

definition startMic_av_gum :: "outcome \<Rightarrow> state \<Rightarrow> task" where
  "startMic_av_gum out s =
    (case out of
       Resolved \<Rightarrow>
         let s = wireMic s;
             s = draw (clearCanvas (fitCanvas s))
         in (s\<lparr>isMicOn := True\<rparr>, [])
     | Rejected m \<Rightarrow>
         let s = s\<lparr>error := Some (message m ''Microphone permission denied or unavailable.'')\<rparr>;
             s = clearCanvas s
         in (s\<lparr>isMicOn := False\<rparr>, []))"

definition stopMic_av_rest :: "state \<Rightarrow> task" where
  "stopMic_av_rest s = ((clearCanvas (s\<lparr>audioCtxRef := None\<rparr>))\<lparr>isMicOn := False\<rparr>, [])"

definition stopMic_av_suspended :: "state \<Rightarrow> task" where
  "stopMic_av_suspended s =
    (case audioCtxRef s of
       None \<Rightarrow> stopMic_av_rest s
     | Some c \<Rightarrow> (emit (Close c) s, [StopMic_av_close]))"

text \<open>\<open>stopMic\<close> up to \<open>if (audioCtxRef.current)\<close>.\<close>

definition stopMic_av_head :: "state \<Rightarrow> state" where
  "stopMic_av_head s =
    (let s = stopRenderLoop s;
         s = (case micSourceRef s of None \<Rightarrow> s | Some n \<Rightarrow> disconnect n s);
         s = (case analyserRef s of None \<Rightarrow> s | Some a \<Rightarrow> disconnect (an_id a) s);
         s = s\<lparr>micSourceRef := None, analyserRef := None, dataArrayRef := None\<rparr>;
         s = (case micStreamRef s of None \<Rightarrow> s | Some st \<Rightarrow> stopTracks st s)
     in s\<lparr>micStreamRef := None\<rparr>)"

definition stopMic_av :: "state \<Rightarrow> task" where
  "stopMic_av s =
    (let s = stopMic_av_head s
     in case audioCtxRef s of
          None \<Rightarrow> stopMic_av_rest s
        | Some c \<Rightarrow> (emit (Suspend c) s, [StopMic_av_suspend]))"

subsection \<open>part\_000\<close>

definition stopMic_p0_rest :: "state \<Rightarrow> task" where
  "stopMic_p0_rest s =
    (setMode (\<lambda>m. if m = Mic then Idle else m) ((clearCanvas s)\<lparr>isMicOn := False\<rparr>), [])"

text \<open>\<open>stopMic\<close> up to its \<open>await teardownContext()\<close>.\<close>

definition stopMic_p0_head :: "state \<Rightarrow> state" where
  "stopMic_p0_head s =
    (let s = stopRenderLoop s;
         s = (case micSourceRef s of None \<Rightarrow> s | Some n \<Rightarrow> disconnect n s);
         s = s\<lparr>micSourceRef := None\<rparr>;
         s = (case micStreamRef s of None \<Rightarrow> s | Some st \<Rightarrow> stopTracks st s)
     in s\<lparr>micStreamRef := None\<rparr>)"

definition stopMic_p0 :: "state \<Rightarrow> task" where
  "stopMic_p0 s = await (teardownContext (stopMic_p0_head s)) StopMic_p0_td stopMic_p0_rest"

definition stopFilePlayback_p0_rest :: "state \<Rightarrow> task" where
  "stopFilePlayback_p0_rest s =
    ((setMode (\<lambda>m. if m = File then Idle else m) ((clearCanvas s)\<lparr>isFilePlaying := False\<rparr>))
       \<lparr>fileName := None\<rparr>, [])"

text \<open>\<open>stopFilePlayback\<close> up to its \<open>await teardownContext()\<close>.\<close>

definition stopFilePlayback_p0_head :: "state \<Rightarrow> state" where
  "stopFilePlayback_p0_head s =
    (let s = stopRenderLoop s
     in case fileSourceRef s of
          None \<Rightarrow> s
        | Some n \<Rightarrow> (disconnect n (emit (SourceStop n) s))\<lparr>fileSourceRef := None\<rparr>)"

definition stopFilePlayback_p0 :: "state \<Rightarrow> task" where
  "stopFilePlayback_p0 s =
    await (teardownContext (stopFilePlayback_p0_head s)) StopFile_p0_td stopFilePlayback_p0_rest"

definition startMic_p0_gum :: "outcome \<Rightarrow> state \<Rightarrow> task" where
  "startMic_p0_gum out s =
    (case out of
       Resolved \<Rightarrow>
         let s = wireMic s;
             s = draw (clearCanvas (fitCanvas s))
         in (s\<lparr>mode := Mic, isMicOn := True, isFilePlaying := False, fileName := None\<rparr>, [])
     | Rejected m \<Rightarrow>
         let s = s\<lparr>error := Some (message m ''Microphone permission denied or unavailable.'')\<rparr>;
             s = clearCanvas s
         in (s\<lparr>mode := Idle, isMicOn := False\<rparr>, []))"

definition startMic_p0_rest :: "state \<Rightarrow> task" where
  "startMic_p0_rest s = (emit GetUserMedia (s\<lparr>error := None\<rparr>), [StartMic_p0_gum])"

definition startMic_p0 :: "state \<Rightarrow> task" where
  "startMic_p0 s = await (stopFilePlayback_p0 s) StartMic_p0_stop startMic_p0_rest"

definition startFilePlayback_p0_catch :: "string option \<Rightarrow> state \<Rightarrow> task" where
  "startFilePlayback_p0_catch m s =
    (let s = s\<lparr>error := Some (message m ''Failed to play the selected audio file.'')\<rparr>;
         s = clearCanvas s
     in (s\<lparr>isFilePlaying := False, mode := Idle, fileSourceRef := None\<rparr>, []))"

definition startFilePlayback_p0_rest :: "string \<Rightarrow> state \<Rightarrow> task" where
  "startFilePlayback_p0_rest name s = (emit ArrayBuffer (s\<lparr>error := None\<rparr>), [StartFile_p0_buf name])"

definition startFilePlayback_p0_buf :: "string \<Rightarrow> outcome \<Rightarrow> state \<Rightarrow> task" where
  "startFilePlayback_p0_buf name out s =
    (case out of
       Resolved \<Rightarrow>
         let (audioCtx, s) = newAudioContext s;
             s = s\<lparr>audioCtxRef := Some audioCtx\<rparr>;
             (analyser, s) = createAnalyser s;
             s = s\<lparr>analyserRef := Some analyser\<rparr>
         in (emit (DecodeAudioData audioCtx) s, [StartFile_p0_decode name audioCtx analyser])
     | Rejected m \<Rightarrow> startFilePlayback_p0_catch m s)"

definition startFilePlayback_p0_decode :: "string \<Rightarrow> nat \<Rightarrow> analyser \<Rightarrow> outcome \<Rightarrow> state \<Rightarrow> task" where
  "startFilePlayback_p0_decode name audioCtx analyser out s =
    (case out of
       Resolved \<Rightarrow>
         let (src, s) = fresh s;
             s = connect src (Node (an_id analyser)) s;
             s = connect (an_id analyser) (Destination audioCtx) s;
             s = s\<lparr>fileSourceRef := Some src\<rparr>;
             (dataArray, s) = newUint8Array (frequencyBinCount analyser) s;
             s = s\<lparr>dataArrayRef := Some dataArray\<rparr>;
             s = draw (clearCanvas (fitCanvas s));
             s = emit (SourceStart src) s;
             s = s\<lparr>mode := File, isFilePlaying := True, fileName := Some name\<rparr>
         in (s\<lparr>ended_hooks := ended_hooks s @ [src]\<rparr>, [])
     | Rejected m \<Rightarrow> startFilePlayback_p0_catch m s)"

definition startFilePlayback_p0 :: "string \<Rightarrow> state \<Rightarrow> task" where
  "startFilePlayback_p0 name s =
    await (stopMic_p0 s) (StartFile_p0_stop name) (startFilePlayback_p0_rest name)"

text \<open>The handler that \<open>startFilePlayback\<close> stores in \<open>src.onended\<close>, run when the host
  delivers \<open>ended\<close> to the node \<open>n\<close>.\<close>

definition onended_p0_rest :: "state \<Rightarrow> task" where
  "onended_p0_rest s =
    (clearCanvas (setMode (\<lambda>m. if m = File then Idle else m)
       (s\<lparr>fileSourceRef := None, isFilePlaying := False\<rparr>)), [])"

definition onended_p0 :: "nat \<Rightarrow> state \<Rightarrow> task" where
  "onended_p0 n s =
    (if n \<in> set (ended_hooks s)
     then await (teardownContext (stopRenderLoop s)) Ended_p0_td onended_p0_rest
     else (s, []))"

subsection \<open>temp.tsx, first component: one shared context\<close>

definition disconnectAll :: "state \<Rightarrow> state" where
  "disconnectAll s =
    (let s = (case micSourceRef s of None \<Rightarrow> s | Some n \<Rightarrow> disconnect n s);
         s = (case mediaElSourceRef s of None \<Rightarrow> s | Some n \<Rightarrow> disconnect n s)
     in case analyserRef s of None \<Rightarrow> s | Some a \<Rightarrow> disconnect (an_id a) s)"

definition connectForMic :: "state \<Rightarrow> state" where
  "connectForMic s =
    (case (audioCtxRef s, analyserRef s, micSourceRef s) of
       (Some c, Some a, Some n) \<Rightarrow> connect (an_id a) (Destination c) (connect n (Node (an_id a)) s)
     | _ \<Rightarrow> s)"

definition connectForFile :: "state \<Rightarrow> state" where
  "connectForFile s =
    (case (audioCtxRef s, analyserRef s, mediaElSourceRef s) of
       (Some c, Some a, Some n) \<Rightarrow> connect (an_id a) (Destination c) (connect n (Node (an_id a)) s)
     | _ \<Rightarrow> s)"

text \<open>The body of the mount effect up to its call of \<open>startMic\<close>.\<close>

definition init_t1 :: "state \<Rightarrow> state" where
  "init_t1 s =
    (let (ctx, s) = newAudioContext s;
         s = s\<lparr>audioCtxRef := Some ctx\<rparr>;
         (analyser, s) = createAnalyser s;
         s = s\<lparr>analyserRef := Some analyser\<rparr>;
         el = \<lparr>src = [], currentTime = 0, muted = True, onended = False, has_source = False\<rparr>;
         s = s\<lparr>audioElRef := Some el\<rparr>;
         (mediaSrc, s) = fresh s;
         s = s\<lparr>audioElRef := Some (el\<lparr>has_source := True\<rparr>), mediaElSourceRef := Some mediaSrc\<rparr>;
         (dataArray, s) = newUint8Array (frequencyBinCount analyser) s
     in s\<lparr>dataArrayRef := Some dataArray\<rparr>)"

text \<open>\<open>stopPresetPlayback\<close> is \<open>async\<close> but awaits nothing.\<close>

definition stopPresetPlayback_t1 :: "state \<Rightarrow> state" where
  "stopPresetPlayback_t1 s =
    (case audioElRef s of
       None \<Rightarrow> s
     | Some el \<Rightarrow>
         let s = stopRenderLoop s;
             s = emit DetachOnended (s\<lparr>audioElRef := Some (el\<lparr>onended := False\<rparr>)\<rparr>);
             s = emit Pause s;
             s = s\<lparr>audioElRef := Some (el\<lparr>onended := False, currentTime := 0\<rparr>)\<rparr>;
             s = disconnectAll s;
             s = clearCanvas s;
             s = s\<lparr>isFilePlaying := False, currentTrackId := None\<rparr>
         in setMode (\<lambda>m. if m = File then Idle else m) s)"

definition startMic_t1_catch :: "string option \<Rightarrow> state \<Rightarrow> task" where
  "startMic_t1_catch m s =
    (let s = s\<lparr>error := Some (message m ''Microphone permission denied or unavailable.'')\<rparr>;
         s = clearCanvas s
     in (s\<lparr>mode := Idle, isMicOn := False, busy := False\<rparr>, []))"

definition startMic_t1_gum :: "outcome \<Rightarrow> state \<Rightarrow> task" where
  "startMic_t1_gum out s =
    (case out of
       Resolved \<Rightarrow>
         let (stream, s) = newStream s;
             s = s\<lparr>micStreamRef := Some stream\<rparr>
         in (case audioCtxRef s of
               None \<Rightarrow>
                 startMic_t1_catch
                   (Some ''Cannot read properties of null'') s
             | Some c \<Rightarrow>
                 let (src, s) = fresh s;
                     s = s\<lparr>micSourceRef := Some src\<rparr>;
                     s = connectForMic (disconnectAll s);
                     s = draw (clearCanvas (fitCanvas s))
                 in (s\<lparr>mode := Mic, isMicOn := True, isFilePlaying := False,
                        currentTrackId := None, busy := False\<rparr>, []))
     | Rejected m \<Rightarrow> startMic_t1_catch m s)"

definition startMic_t1 :: "state \<Rightarrow> task" where
  "startMic_t1 s =
    (case audioCtxRef s of
       None \<Rightarrow> (s, [])
     | Some c \<Rightarrow>
         let s = s\<lparr>busy := True\<rparr>;
             s = stopPresetPlayback_t1 s;
             s = s\<lparr>error := None\<rparr>
         in (emit GetUserMedia s, [StartMic_t1_gum]))"

definition stopMic_t1 :: "state \<Rightarrow> state" where
  "stopMic_t1 s =
    (case audioCtxRef s of
       None \<Rightarrow> s
     | Some c \<Rightarrow>
         let s = stopRenderLoop s;
             s = (case micSourceRef s of None \<Rightarrow> s | Some n \<Rightarrow> disconnect n s);
             s = s\<lparr>micSourceRef := None\<rparr>;
             s = (case micStreamRef s of None \<Rightarrow> s | Some st \<Rightarrow> stopTracks st s);
             s = s\<lparr>micStreamRef := None\<rparr>;
             s = clearCanvas s;
             s = s\<lparr>isMicOn := False\<rparr>
         in setMode (\<lambda>m. if m = Mic then Idle else m) s)"

definition startPreset_t1_catch :: "string option \<Rightarrow> state \<Rightarrow> task" where
  "startPreset_t1_catch m s =
    (let s = s\<lparr>error := Some (message m ''Failed to play track.'')\<rparr>;
         s = s\<lparr>isFilePlaying := False, currentTrackId := None, mode := Idle\<rparr>;
         s = disconnectAll (clearCanvas s)
     in (s\<lparr>busy := False\<rparr>, []))"

definition startPreset_t1_play :: "track \<Rightarrow> outcome \<Rightarrow> state \<Rightarrow> task" where
  "startPreset_t1_play tr out s =
    (case out of
       Resolved \<Rightarrow>
         let s = s\<lparr>mode := File, isFilePlaying := True, currentTrackId := Some (track_id tr)\<rparr>
         in (case audioElRef s of
               None \<Rightarrow>
                 startPreset_t1_catch (Some ''Cannot set properties of null'') s
             | Some el \<Rightarrow> (s\<lparr>audioElRef := Some (el\<lparr>onended := True\<rparr>), busy := False\<rparr>, []))
     | Rejected m \<Rightarrow> startPreset_t1_catch m s)"

text \<open>\<open>startPreset\<close> is a \<open>useCallback\<close> with \<open>busy\<close> among its dependencies: the \<open>busy\<close> that
  \<open>if (busy) return\<close> reads is the value the React state had in the render that made this
  callback, not the field that \<open>setBusy\<close> has written since. It is the argument
  \<open>busy_seen\<close>.\<close>

definition startPreset_t1 :: "bool \<Rightarrow> track \<Rightarrow> state \<Rightarrow> task" where
  "startPreset_t1 busy_seen tr s =
    (case (audioCtxRef s, audioElRef s) of
       (Some c, Some el0) \<Rightarrow>
         if busy_seen then (s, [])
         else
           let s = s\<lparr>busy := True\<rparr>;
               s = stopMic_t1 s;
               s = emit Pause (emit DetachOnended (s\<lparr>audioElRef := Some (el0\<lparr>onended := False\<rparr>)\<rparr>));
               s = connectForFile (disconnectAll s);
               s = s\<lparr>audioElRef := Some (el0\<lparr>onended := False, src := url tr, currentTime := 0\<rparr>)\<rparr>;
               s = draw (clearCanvas (fitCanvas s))
           in (emit Play s, [StartPreset_t1_play tr])
     | _ \<Rightarrow> (s, []))"

text \<open>The handler that \<open>startPreset\<close> stores in the element's \<open>onended\<close>.\<close>

definition onended_t1 :: "state \<Rightarrow> state" where
  "onended_t1 s =
    (case audioElRef s of
       None \<Rightarrow> s
     | Some el \<Rightarrow>
         if onended el
         then
           let s = stopRenderLoop s;
               s = s\<lparr>isFilePlaying := False, currentTrackId := None, mode := Idle\<rparr>
           in disconnectAll (clearCanvas s)
         else s)"

text \<open>
  What a render of the component reads of the React state. The buttons it returns keep
  these values until the next render: all of them carry \<open>disabled={busy}\<close>, and a disabled
  button delivers no click.
\<close>

record view =
  v_mode :: Mode
  v_isMicOn :: bool
  v_isFilePlaying :: bool
  v_currentTrackId :: "string option"
  v_busy :: bool

definition render_t1 :: "state \<Rightarrow> view" where
  "render_t1 s = \<lparr>v_mode = mode s, v_isMicOn = isMicOn s, v_isFilePlaying = isFilePlaying s,
     v_currentTrackId = currentTrackId s, v_busy = busy s\<rparr>"

text \<open>The button \<open>Turn Mic Off\<close> / \<open>Use Mic\<close>: \<open>onClick={isMicOn ? stopMic : startMic}\<close>.\<close>

definition click_mic_t1 :: "view \<Rightarrow> state \<Rightarrow> task" where
  "click_mic_t1 v s =
    (if v_busy v then (s, [])
     else if v_isMicOn v then (stopMic_t1 s, [])
     else startMic_t1 s)"

text \<open>The button \<open>Stop Track\<close>, rendered when \<open>mode === "file" && isFilePlaying\<close>.\<close>

definition click_stopTrack_t1 :: "view \<Rightarrow> state \<Rightarrow> task" where
  "click_stopTrack_t1 v s =
    (if v_mode v = File \<and> v_isFilePlaying v \<and> \<not> v_busy v then (stopPresetPlayback_t1 s, [])
     else (s, []))"

text \<open>The button of the preset \<open>tr\<close>: \<open>Stop\<close> when the track is the active one, else \<open>Play\<close>.\<close>

definition click_track_t1 :: "view \<Rightarrow> track \<Rightarrow> state \<Rightarrow> task" where
  "click_track_t1 v tr s =
    (if v_busy v then (s, [])
     else if v_currentTrackId v = Some (track_id tr) \<and> v_isFilePlaying v \<and> v_mode v = File
     then (stopPresetPlayback_t1 s, [])
     else startPreset_t1 (v_busy v) tr s)"

subsection \<open>temp.tsx, second component: one context per activation\<close>

text \<open>\<open>stopMic\<close> of this component has the body of \<open>stopMic\<close> of part\_000 and is \<open>stopMic_p0\<close>
  here.\<close>

definition stopPresetPlayback_t2_rest :: "state \<Rightarrow> task" where
  "stopPresetPlayback_t2_rest s =
    (setMode (\<lambda>m. if m = File then Idle else m)
       ((clearCanvas s)\<lparr>isFilePlaying := False, currentTrackId := None\<rparr>), [])"

text \<open>\<open>stopPresetPlayback\<close> up to its \<open>await teardownContext()\<close>.\<close>

definition stopPresetPlayback_t2_head :: "state \<Rightarrow> state" where
  "stopPresetPlayback_t2_head s =
    (let s = stopRenderLoop s;
         s = (case audioElRef s of
                None \<Rightarrow> s
              | Some el \<Rightarrow>
                  emit Pause (emit DetachOnended
                    (s\<lparr>audioElRef := Some (el\<lparr>onended := False, currentTime := 0\<rparr>)\<rparr>)))
     in case mediaElSourceRef s of
          None \<Rightarrow> s
        | Some n \<Rightarrow> (disconnect n s)\<lparr>mediaElSourceRef := None\<rparr>)"

definition stopPresetPlayback_t2 :: "state \<Rightarrow> task" where
  "stopPresetPlayback_t2 s =
    await (teardownContext (stopPresetPlayback_t2_head s)) StopPreset_t2_td stopPresetPlayback_t2_rest"

definition ensureAudioElement :: "state \<Rightarrow> audio_el \<times> state" where
  "ensureAudioElement s =
    (case audioElRef s of
       None \<Rightarrow>
         let el = \<lparr>src = [], currentTime = 0, muted = False, onended = False, has_source = False\<rparr>
         in (el, s\<lparr>audioElRef := Some el\<rparr>)
     | Some el \<Rightarrow> (el, s))"

definition startPreset_t2_catch :: "string option \<Rightarrow> state \<Rightarrow> task" where
  "startPreset_t2_catch m s =
    (let s = s\<lparr>error := Some (message m ''Failed to play track.'')\<rparr>;
         s = clearCanvas s
     in (s\<lparr>isFilePlaying := False, mode := Idle, mediaElSourceRef := None\<rparr>, []))"

definition startPreset_t2_play :: "track \<Rightarrow> outcome \<Rightarrow> state \<Rightarrow> task" where
  "startPreset_t2_play tr out s =
    (case out of
       Resolved \<Rightarrow>
         let s = s\<lparr>mode := File, currentTrackId := Some (track_id tr), isFilePlaying := True\<rparr>
         in (s\<lparr>audioElRef := map_option (\<lambda>el. el\<lparr>onended := True\<rparr>) (audioElRef s)\<rparr>, [])
     | Rejected m \<Rightarrow> startPreset_t2_catch m s)"

text \<open>The \<open>try\<close> body up to \<open>await el.play()\<close>. On a host that makes one
  \<open>MediaElementAudioSourceNode\<close> per element, \<open>createMediaElementSource\<close> throws an
  \<open>InvalidStateError\<close> for an element that has one already (the message is the host's), and
  the \<open>catch\<close> branch runs before \<open>play()\<close> is reached.\<close>

definition startPreset_t2_body :: "track \<Rightarrow> state \<Rightarrow> task" where
  "startPreset_t2_body tr s =
    (let s = s\<lparr>error := None\<rparr>;
         (el, s) = ensureAudioElement s;
         el = el\<lparr>src := url tr\<rparr>;
         s = s\<lparr>audioElRef := Some el\<rparr>;
         (audioCtx, s) = newAudioContext s;
         s = s\<lparr>audioCtxRef := Some audioCtx\<rparr>;
         (analyser, s) = createAnalyser s;
         s = s\<lparr>analyserRef := Some analyser\<rparr>
     in if host_single_source s \<and> has_source el
        then startPreset_t2_catch
               (Some ''HTMLMediaElement already connected previously to a different MediaElementSourceNode.'') s
        else
          let (mediaSrc, s) = fresh s;
              s = s\<lparr>audioElRef := Some (el\<lparr>has_source := True\<rparr>)\<rparr>;
              s = connect mediaSrc (Node (an_id analyser)) s;
              s = connect (an_id analyser) (Destination audioCtx) s;
              s = s\<lparr>mediaElSourceRef := Some mediaSrc\<rparr>;
              (dataArray, s) = newUint8Array (frequencyBinCount analyser) s;
              s = s\<lparr>dataArrayRef := Some dataArray\<rparr>;
              s = draw (clearCanvas (fitCanvas s))
          in (emit Play s, [StartPreset_t2_play tr]))"

definition startPreset_t2_rest :: "track \<Rightarrow> state \<Rightarrow> task" where
  "startPreset_t2_rest tr s =
    await (stopPresetPlayback_t2 s) (StartPreset_t2_stopPreset tr) (startPreset_t2_body tr)"

definition startPreset_t2 :: "track \<Rightarrow> state \<Rightarrow> task" where
  "startPreset_t2 tr s = await (stopMic_p0 s) (StartPreset_t2_stopMic tr) (startPreset_t2_rest tr)"

definition onended_t2_rest :: "state \<Rightarrow> task" where
  "onended_t2_rest s =
    (clearCanvas (setMode (\<lambda>m. if m = File then Idle else m)
       (s\<lparr>mediaElSourceRef := None, isFilePlaying := False\<rparr>)), [])"

definition onended_t2 :: "state \<Rightarrow> task" where
  "onended_t2 s =
    (case audioElRef s of
       None \<Rightarrow> (s, [])
     | Some el \<Rightarrow>
         if onended el
         then await (teardownContext (stopRenderLoop s)) Ended_t2_td onended_t2_rest
         else (s, []))"

subsection \<open>Resuming a suspended function\<close>

text \<open>One frame, resumed with what its promise settled to, runs to its next pending
  \<open>await\<close> or to its end. \<open>suspend()\<close> and \<open>close()\<close> sit in \<open>try {} catch {}\<close>: their
  outcome is not read.\<close>

fun step :: "frame \<Rightarrow> outcome \<Rightarrow> state \<Rightarrow> task" where
  "step TD_suspend out s = td_suspended s"
| "step TD_close out s = (td_finally s, [])"
| "step StopMic_av_suspend out s = stopMic_av_suspended s"
| "step StopMic_av_close out s = stopMic_av_rest s"
| "step StartMic_av_gum out s = startMic_av_gum out s"
| "step StopMic_p0_td out s = stopMic_p0_rest s"
| "step StopFile_p0_td out s = stopFilePlayback_p0_rest s"
| "step Ended_p0_td out s = onended_p0_rest s"
| "step StartMic_p0_stop out s = startMic_p0_rest s"
| "step StartMic_p0_gum out s = startMic_p0_gum out s"
| "step (StartFile_p0_stop name) out s = startFilePlayback_p0_rest name s"
| "step (StartFile_p0_buf name) out s = startFilePlayback_p0_buf name out s"
| "step (StartFile_p0_decode name c a) out s = startFilePlayback_p0_decode name c a out s"
| "step StartMic_t1_gum out s = startMic_t1_gum out s"
| "step (StartPreset_t1_play tr) out s = startPreset_t1_play tr out s"
| "step StopPreset_t2_td out s = stopPresetPlayback_t2_rest s"
| "step Ended_t2_td out s = onended_t2_rest s"
| "step (StartPreset_t2_stopMic tr) out s = startPreset_t2_rest tr s"
| "step (StartPreset_t2_stopPreset tr) out s = startPreset_t2_body tr s"
| "step (StartPreset_t2_play tr) out s = startPreset_t2_play tr out s"

text \<open>The innermost frame is resumed; when it ends, the \<open>await\<close> of its caller is settled
  (the functions awaited here catch every error, so it resolves) and the caller goes on.\<close>

fun resume :: "frame list \<Rightarrow> outcome \<Rightarrow> state \<Rightarrow> task" where
  "resume [] out s = (s, [])"
| "resume (f # fs) out s =
     (case step f out s of (s', fs') \<Rightarrow> if fs' = [] then resume fs Resolved s' else (s', fs' @ fs))"

definition continue :: "outcome \<Rightarrow> task \<Rightarrow> task" where
  "continue out r = (case r of (s, fs) \<Rightarrow> resume fs out s)"

text \<open>The host settles the pending \<open>suspend()\<close> or \<open>close()\<close> of a task, if that is what it
  waits for.\<close>

fun waits_for_context :: "frame list \<Rightarrow> bool" where
  "waits_for_context (TD_suspend # fs) = True"
| "waits_for_context (TD_close # fs) = True"
| "waits_for_context (StopMic_av_suspend # fs) = True"
| "waits_for_context (StopMic_av_close # fs) = True"
| "waits_for_context fs = False"

definition settle :: "task \<Rightarrow> task" where
  "settle r = (if waits_for_context (snd r) then continue Resolved r else r)"

subsection \<open>Runs without interleaving\<close>

text \<open>\<open>teardownContext\<close> waits twice at most, for \<open>suspend()\<close> and for \<open>close()\<close>.\<close>

definition settled :: "task \<Rightarrow> task" where
  "settled r = settle (settle r)"

text \<open>What \<open>teardownContext\<close> does when nothing else runs between its steps.\<close>

definition closeContext :: "state \<Rightarrow> state" where
  "closeContext s =
    (case audioCtxRef s of
       None \<Rightarrow> td_finally s
     | Some c \<Rightarrow> td_finally (emit (Close c) (emit (Suspend c) s)))"

text \<open>Each call below runs alone, to its end: the host settles \<open>suspend()\<close> and \<open>close()\<close>,
  and the promises whose outcome the code reads settle to the outcomes given.\<close>

definition run_startMic_av :: "outcome \<Rightarrow> state \<Rightarrow> state" where
  "run_startMic_av out s = fst (continue out (startMic_av s))"

definition run_stopMic_av :: "state \<Rightarrow> state" where
  "run_stopMic_av s = fst (settled (stopMic_av s))"

definition run_startMic_p0 :: "outcome \<Rightarrow> state \<Rightarrow> state" where
  "run_startMic_p0 out s = fst (continue out (settled (startMic_p0 s)))"

definition run_stopMic_p0 :: "state \<Rightarrow> state" where
  "run_stopMic_p0 s = fst (settled (stopMic_p0 s))"

definition run_startFilePlayback_p0 :: "string \<Rightarrow> outcome \<Rightarrow> outcome \<Rightarrow> state \<Rightarrow> state" where
  "run_startFilePlayback_p0 name out_buf out_decode s =
    fst (continue out_decode (continue out_buf (settled (startFilePlayback_p0 name s))))"

definition run_stopFilePlayback_p0 :: "state \<Rightarrow> state" where
  "run_stopFilePlayback_p0 s = fst (settled (stopFilePlayback_p0 s))"

definition run_onended_p0 :: "nat \<Rightarrow> state \<Rightarrow> state" where
  "run_onended_p0 n s = fst (settled (onended_p0 n s))"

definition run_startPreset_t2 :: "track \<Rightarrow> outcome \<Rightarrow> state \<Rightarrow> state" where
  "run_startPreset_t2 tr out s = fst (continue out (settled (startPreset_t2 tr s)))"

definition run_stopPresetPlayback_t2 :: "state \<Rightarrow> state" where
  "run_stopPresetPlayback_t2 s = fst (settled (stopPresetPlayback_t2 s))"

text \<open>The cleanup of the mount effect of part\_000,
  \<^verbatim>\<open>stopRenderLoop(); stopFilePlayback(); stopMic();\<close>: the two \<open>async\<close> calls are not
  awaited, so \<open>stopMic\<close> starts while \<open>stopFilePlayback\<close> waits, and the host settles their
  promises in the order they were made.\<close>

definition unmount_p0 :: "state \<Rightarrow> task \<times> frame list" where
  "unmount_p0 s =
    (let (s, t1) = stopFilePlayback_p0 (stopRenderLoop s);
         (s, t2) = stopMic_p0 s;
         (s, t1) = settle (s, t1);
         (s, t2) = settle (s, t2);
         (s, t1) = settle (s, t1);
         (s, t2) = settle (s, t2)
     in ((s, t1), t2))"

subsection \<open>Observations\<close>

text \<open>The state without the log of host calls.\<close>

definition forget :: "state \<Rightarrow> state" where
  "forget s = s\<lparr>trace := []\<rparr>"

text \<open>The events logged since the state \<open>s\<close>.\<close>

definition since :: "state \<Rightarrow> state \<Rightarrow> event list" where
  "since s s' = drop (length (trace s)) (trace s')"

fun is_playback :: "event \<Rightarrow> bool" where
  "is_playback (SourceStart n) = True"
| "is_playback Play = True"
| "is_playback e = False"

text \<open>\<open>precedes a P es\<close>: reading \<open>es\<close> from its start, \<open>a\<close> is met before any event that
  satisfies \<open>P\<close>.\<close>

fun precedes :: "event \<Rightarrow> (event \<Rightarrow> bool) \<Rightarrow> event list \<Rightarrow> bool" where
  "precedes a P [] = True"
| "precedes a P (e # es) = (if e = a then True else \<not> P e \<and> precedes a P es)"

text \<open>The host would refuse a source node for the audio element: it makes one per element
  and the element has one.\<close>

definition source_refused :: "state \<Rightarrow> bool" where
  "source_refused s =
    (host_single_source s \<and> (case audioElRef s of None \<Rightarrow> False | Some el \<Rightarrow> has_source el))"

text \<open>The source nodes connected to the node \<open>a\<close>.\<close>

definition sources_into :: "nat \<Rightarrow> state \<Rightarrow> nat list" where
  "sources_into a s = map fst (filter (\<lambda>e. snd e = Node a) (edges s))"

subsection \<open>Concrete states\<close>

text \<open>A mounted component before its mount effect ran: a canvas of the default size in a
  box of 801 by 360 CSS pixels on a display of pixel ratio 1.5.\<close>

definition mounted :: state where
  "mounted = \<lparr>audioCtxRef = None, analyserRef = None, micSourceRef = None, micStreamRef = None,
     fileSourceRef = None, audioElRef = None, mediaElSourceRef = None, dataArrayRef = None,
     rafIdRef = None, mode = Idle, isMicOn = False, isFilePlaying = False, fileName = None,
     currentTrackId = None, busy = False, error = None,
     canvas = Some \<lparr>width = 300, height = 150, fills = []\<rparr>,
     rect_width = 801, rect_height = 360, devicePixelRatio = 3 / 2,
     spectrum = [0, 255, 51], scheduled = [], edges = [], live_streams = [], ended_hooks = [],
     host_single_source = True, trace = [], next_id = 0\<rparr>"

text \<open>The same in a box of 800 by 360 CSS pixels at the pixel ratio 1.2, which as a double is
  \<open>5404319552844595 / 2\<^sup>5\<^sup>2\<close>, a little below \<open>6 / 5\<close>.\<close>

definition mounted_at_120 :: state where
  "mounted_at_120 = mounted\<lparr>rect_width := 800, devicePixelRatio := 5404319552844595 / 4503599627370496\<rparr>"

text \<open>A pipeline of four bins on a canvas of 400 by 100 pixels.\<close>

definition four_bins :: state where
  "four_bins = mounted\<lparr>canvas := Some \<lparr>width = 400, height = 100, fills = []\<rparr>,
     analyserRef := Some \<lparr>an_id = 7, fftSize = 8, smoothingTimeConstant = 4 / 5\<rparr>,
     dataArrayRef := Some (9, [0, 0, 0, 0]), next_id := 10\<rparr>"

text \<open>The microphone is active in part\_000: \<open>startMic\<close> ran on the mounted component
  and \<open>getUserMedia\<close> resolved.\<close>

definition mic_active :: state where
  "mic_active = run_startMic_p0 Resolved mounted"

text \<open>A file plays in part\_000: \<open>startFilePlayback\<close> ran on the mounted component, the
  file was read and decoded.\<close>

definition file_active :: state where
  "file_active = run_startFilePlayback_p0 ''song.mp3'' Resolved Resolved mounted"

text \<open>The first component of temp.tsx after the body of its mount effect, before the
  effect calls \<open>startMic\<close>.\<close>

definition mounted_t1 :: state where
  "mounted_t1 = init_t1 mounted"

subsection \<open>Two calls in flight\<close>

text \<open>\<open>startMic\<close> is called (by the mount effect) and waits for \<open>getUserMedia\<close>; before
  the user answers the prompt \<open>startMic\<close> is called again (part\_000 shows the button
  \<open>Use Mic\<close> whenever the mode is not mic; the effect of a component mounted twice calls
  it twice). Then the host resolves both requests in the order they were made.\<close>

definition two_startMic_p0 :: "state \<Rightarrow> state" where
  "two_startMic_p0 s =
    (let (s, t1) = startMic_p0 s;
         (s, t2) = startMic_p0 s;
         (s, t1) = continue Resolved (s, t1);
         (s, t2) = continue Resolved (s, t2)
     in s)"

section \<open>Properties\<close>

subsection \<open>Auxiliary facts\<close>

lemmas prims = emit_def connect_def disconnect_def stopTracks_def bump_def fresh_def
  newStream_def newAudioContext_def createAnalyser_def newUint8Array_def setMode_def message_def

lemma length_sample: "length (sample sp d) = length d"
  by (simp add: sample_def)

text \<open>The loop of \<open>draw\<close> in closed form: bar \<open>k\<close> of the rest of the bins.\<close>

lemma bars_map:
  "bars H bw n i x vs =
     map (\<lambda>k. (Hsl (of_nat (i + k) / of_nat n * 300), x + of_nat k * (bw + 1),
                H - of_nat (vs ! k) / 255 * (H * (9 / 10)), bw, of_nat (vs ! k) / 255 * (H * (9 / 10))))
         [0..<length vs]"
proof (induction vs arbitrary: i x)
  case Nil
  show ?case by simp
next
  case (Cons v vs)
  show ?case
    unfolding length_Cons map_upt_Suc bars.simps Cons.IH
    by (simp add: hue_def barH_def algebra_simps)
qed

lemma hue_last: "0 < n \<Longrightarrow> hue (n - 1) n = 300 - 300 / of_nat n"
  by (cases n) (simp_all add: hue_def field_simps)

subsection \<open>Awaiting and resuming\<close>

text \<open>A call that awaits \<open>teardownContext\<close> and runs alone ends up where its rest starts
  from the closed context, whether the context was there (two waits) or not (none).\<close>

lemma await_Nil [simp]: "await (s, []) k rest = rest s"
  by (simp add: await_def)

lemma await_Cons [simp]: "await (s, f # fs) k rest = (s, f # fs @ [k])"
  by (simp add: await_def)

lemma resume_single: "resume [f] out s = step f out s"
  by (cases "step f out s") simp

lemma resume_done: "snd (step f out s) = [] \<Longrightarrow> resume (f # fs) out s = resume fs Resolved (fst (step f out s))"
  by (cases "step f out s") simp

lemma resume_wait:
  "snd (step f out s) \<noteq> [] \<Longrightarrow> resume (f # fs) out s = (fst (step f out s), snd (step f out s) @ fs)"
  by (cases "step f out s") simp

lemma settle_idle: "\<not> waits_for_context (snd r) \<Longrightarrow> settle r = r"
  by (simp add: settle_def)

lemma settled_idle: "\<not> waits_for_context (snd r) \<Longrightarrow> settled r = r"
  by (simp add: settled_def settle_idle)

lemma settled_teardown:
  assumes k: "\<And>x. step k Resolved x = rest x"
    and idle: "\<not> waits_for_context (snd (rest (closeContext s)))"
  shows "settled (await (teardownContext s) k rest) = rest (closeContext s)"
proof (cases "audioCtxRef s")
  case None
  then show ?thesis
    using idle by (simp add: teardownContext_def closeContext_def settled_idle)
next
  case (Some c)
  have 1: "settle (await (teardownContext s) k rest) = (emit (Close c) (emit (Suspend c) s), [TD_close, k])"
    using Some
    by (simp add: teardownContext_def settle_def continue_def resume_wait td_suspended_def emit_def
        del: resume.simps)
  have 2: "settle (emit (Close c) (emit (Suspend c) s), [TD_close, k]) = rest (closeContext s)"
    using Some
    by (simp add: settle_def continue_def resume_done resume_single k closeContext_def del: resume.simps)
  show ?thesis by (simp add: settled_def 1 2)
qed

lemma settled_teardown2:
  assumes k1: "\<And>x. step k1 Resolved x = r1 x" and done1: "\<And>x. snd (r1 x) = []"
    and k2: "\<And>x. step k2 Resolved x = r2 x"
    and idle: "\<not> waits_for_context (snd (r2 (fst (r1 (closeContext s)))))"
  shows "settled (await (await (teardownContext s) k1 r1) k2 r2) = r2 (fst (r1 (closeContext s)))"
proof -
  have r1: "r1 x = (fst (r1 x), [])" for x
    using done1 by (metis prod.collapse)
  show ?thesis
  proof (cases "audioCtxRef s")
    case None
    have "await (teardownContext s) k1 r1 = (fst (r1 (closeContext s)), [])"
      using None r1 by (simp add: teardownContext_def closeContext_def)
    then show ?thesis
      using idle by (simp add: settled_idle)
  next
    case (Some c)
    have 0: "await (await (teardownContext s) k1 r1) k2 r2 = (emit (Suspend c) s, [TD_suspend, k1, k2])"
      using Some by (simp add: teardownContext_def)
    have 1: "settle (emit (Suspend c) s, [TD_suspend, k1, k2])
               = (emit (Close c) (emit (Suspend c) s), [TD_close, k1, k2])"
      using Some
      by (simp add: settle_def continue_def resume_wait td_suspended_def emit_def del: resume.simps)
    have 2: "settle (emit (Close c) (emit (Suspend c) s), [TD_close, k1, k2]) = r2 (fst (r1 (closeContext s)))"
      using Some
      by (simp add: settle_def continue_def resume_done resume_single k1 k2 done1 closeContext_def
          del: resume.simps)
    show ?thesis by (simp add: settled_def 0 1 2)
  qed
qed

subsection \<open>What each part leaves alone\<close>

lemma stopRenderLoop_keeps [simp]:
  "audioCtxRef (stopRenderLoop s) = audioCtxRef s"
  "analyserRef (stopRenderLoop s) = analyserRef s"
  "micSourceRef (stopRenderLoop s) = micSourceRef s"
  "micStreamRef (stopRenderLoop s) = micStreamRef s"
  "fileSourceRef (stopRenderLoop s) = fileSourceRef s"
  "audioElRef (stopRenderLoop s) = audioElRef s"
  "mediaElSourceRef (stopRenderLoop s) = mediaElSourceRef s"
  "dataArrayRef (stopRenderLoop s) = dataArrayRef s"
  "mode (stopRenderLoop s) = mode s"
  "isMicOn (stopRenderLoop s) = isMicOn s"
  "isFilePlaying (stopRenderLoop s) = isFilePlaying s"
  "fileName (stopRenderLoop s) = fileName s"
  "currentTrackId (stopRenderLoop s) = currentTrackId s"
  "busy (stopRenderLoop s) = busy s"
  "error (stopRenderLoop s) = error s"
  "canvas (stopRenderLoop s) = canvas s"
  "rect_width (stopRenderLoop s) = rect_width s"
  "rect_height (stopRenderLoop s) = rect_height s"
  "devicePixelRatio (stopRenderLoop s) = devicePixelRatio s"
  "spectrum (stopRenderLoop s) = spectrum s"
  "edges (stopRenderLoop s) = edges s"
  "live_streams (stopRenderLoop s) = live_streams s"
  "ended_hooks (stopRenderLoop s) = ended_hooks s"
  "next_id (stopRenderLoop s) = next_id s"
  "rafIdRef (stopRenderLoop s) = None"
  by (simp_all add: stopRenderLoop_def emit_def split: option.splits)

lemma clearCanvas_keeps [simp]:
  "audioCtxRef (clearCanvas s) = audioCtxRef s"
  "analyserRef (clearCanvas s) = analyserRef s"
  "micSourceRef (clearCanvas s) = micSourceRef s"
  "micStreamRef (clearCanvas s) = micStreamRef s"
  "fileSourceRef (clearCanvas s) = fileSourceRef s"
  "audioElRef (clearCanvas s) = audioElRef s"
  "mediaElSourceRef (clearCanvas s) = mediaElSourceRef s"
  "dataArrayRef (clearCanvas s) = dataArrayRef s"
  "rafIdRef (clearCanvas s) = rafIdRef s"
  "mode (clearCanvas s) = mode s"
  "isMicOn (clearCanvas s) = isMicOn s"
  "isFilePlaying (clearCanvas s) = isFilePlaying s"
  "fileName (clearCanvas s) = fileName s"
  "currentTrackId (clearCanvas s) = currentTrackId s"
  "busy (clearCanvas s) = busy s"
  "error (clearCanvas s) = error s"
  "rect_width (clearCanvas s) = rect_width s"
  "rect_height (clearCanvas s) = rect_height s"
  "devicePixelRatio (clearCanvas s) = devicePixelRatio s"
  "spectrum (clearCanvas s) = spectrum s"
  "scheduled (clearCanvas s) = scheduled s"
  "edges (clearCanvas s) = edges s"
  "live_streams (clearCanvas s) = live_streams s"
  "ended_hooks (clearCanvas s) = ended_hooks s"
  "next_id (clearCanvas s) = next_id s"
  by (simp_all add: clearCanvas_def Let_def split: option.splits)

lemma fitCanvas_keeps [simp]:
  "audioCtxRef (fitCanvas s) = audioCtxRef s"
  "analyserRef (fitCanvas s) = analyserRef s"
  "micSourceRef (fitCanvas s) = micSourceRef s"
  "micStreamRef (fitCanvas s) = micStreamRef s"
  "fileSourceRef (fitCanvas s) = fileSourceRef s"
  "audioElRef (fitCanvas s) = audioElRef s"
  "mediaElSourceRef (fitCanvas s) = mediaElSourceRef s"
  "dataArrayRef (fitCanvas s) = dataArrayRef s"
  "rafIdRef (fitCanvas s) = rafIdRef s"
  "mode (fitCanvas s) = mode s"
  "isMicOn (fitCanvas s) = isMicOn s"
  "isFilePlaying (fitCanvas s) = isFilePlaying s"
  "fileName (fitCanvas s) = fileName s"
  "currentTrackId (fitCanvas s) = currentTrackId s"
  "busy (fitCanvas s) = busy s"
  "error (fitCanvas s) = error s"
  "rect_width (fitCanvas s) = rect_width s"
  "rect_height (fitCanvas s) = rect_height s"
  "devicePixelRatio (fitCanvas s) = devicePixelRatio s"
  "spectrum (fitCanvas s) = spectrum s"
  "scheduled (fitCanvas s) = scheduled s"
  "edges (fitCanvas s) = edges s"
  "live_streams (fitCanvas s) = live_streams s"
  "ended_hooks (fitCanvas s) = ended_hooks s"
  "trace (fitCanvas s) = trace s"
  "next_id (fitCanvas s) = next_id s"
  by (simp_all add: fitCanvas_def Let_def split: option.splits)

lemma draw_keeps [simp]:
  "audioCtxRef (draw s) = audioCtxRef s"
  "analyserRef (draw s) = analyserRef s"
  "micSourceRef (draw s) = micSourceRef s"
  "micStreamRef (draw s) = micStreamRef s"
  "fileSourceRef (draw s) = fileSourceRef s"
  "audioElRef (draw s) = audioElRef s"
  "mediaElSourceRef (draw s) = mediaElSourceRef s"
  "mode (draw s) = mode s"
  "isMicOn (draw s) = isMicOn s"
  "isFilePlaying (draw s) = isFilePlaying s"
  "fileName (draw s) = fileName s"
  "currentTrackId (draw s) = currentTrackId s"
  "busy (draw s) = busy s"
  "error (draw s) = error s"
  "rect_width (draw s) = rect_width s"
  "rect_height (draw s) = rect_height s"
  "devicePixelRatio (draw s) = devicePixelRatio s"
  "spectrum (draw s) = spectrum s"
  "edges (draw s) = edges s"
  "live_streams (draw s) = live_streams s"
  "ended_hooks (draw s) = ended_hooks s"
  by (simp_all add: draw_def Let_def split: option.splits)

lemma closeContext_keeps [simp]:
  "micSourceRef (closeContext s) = micSourceRef s"
  "micStreamRef (closeContext s) = micStreamRef s"
  "fileSourceRef (closeContext s) = fileSourceRef s"
  "audioElRef (closeContext s) = audioElRef s"
  "mediaElSourceRef (closeContext s) = mediaElSourceRef s"
  "rafIdRef (closeContext s) = rafIdRef s"
  "mode (closeContext s) = mode s"
  "isMicOn (closeContext s) = isMicOn s"
  "isFilePlaying (closeContext s) = isFilePlaying s"
  "fileName (closeContext s) = fileName s"
  "currentTrackId (closeContext s) = currentTrackId s"
  "busy (closeContext s) = busy s"
  "error (closeContext s) = error s"
  "canvas (closeContext s) = canvas s"
  "rect_width (closeContext s) = rect_width s"
  "rect_height (closeContext s) = rect_height s"
  "devicePixelRatio (closeContext s) = devicePixelRatio s"
  "spectrum (closeContext s) = spectrum s"
  "scheduled (closeContext s) = scheduled s"
  "edges (closeContext s) = edges s"
  "live_streams (closeContext s) = live_streams s"
  "ended_hooks (closeContext s) = ended_hooks s"
  "next_id (closeContext s) = next_id s"
  "audioCtxRef (closeContext s) = None"
  "analyserRef (closeContext s) = None"
  "dataArrayRef (closeContext s) = None"
  by (simp_all add: closeContext_def td_finally_def emit_def split: option.splits)

lemma stopMic_p0_head_keeps [simp]:
  "audioCtxRef (stopMic_p0_head s) = audioCtxRef s"
  "analyserRef (stopMic_p0_head s) = analyserRef s"
  "fileSourceRef (stopMic_p0_head s) = fileSourceRef s"
  "audioElRef (stopMic_p0_head s) = audioElRef s"
  "mediaElSourceRef (stopMic_p0_head s) = mediaElSourceRef s"
  "dataArrayRef (stopMic_p0_head s) = dataArrayRef s"
  "mode (stopMic_p0_head s) = mode s"
  "isMicOn (stopMic_p0_head s) = isMicOn s"
  "isFilePlaying (stopMic_p0_head s) = isFilePlaying s"
  "fileName (stopMic_p0_head s) = fileName s"
  "currentTrackId (stopMic_p0_head s) = currentTrackId s"
  "busy (stopMic_p0_head s) = busy s"
  "error (stopMic_p0_head s) = error s"
  "canvas (stopMic_p0_head s) = canvas s"
  "rect_width (stopMic_p0_head s) = rect_width s"
  "rect_height (stopMic_p0_head s) = rect_height s"
  "devicePixelRatio (stopMic_p0_head s) = devicePixelRatio s"
  "spectrum (stopMic_p0_head s) = spectrum s"
  "ended_hooks (stopMic_p0_head s) = ended_hooks s"
  "next_id (stopMic_p0_head s) = next_id s"
  "rafIdRef (stopMic_p0_head s) = None"
  "micSourceRef (stopMic_p0_head s) = None"
  "micStreamRef (stopMic_p0_head s) = None"
  by (simp_all add: stopMic_p0_head_def Let_def prims split: option.splits)

lemma stopFilePlayback_p0_head_keeps [simp]:
  "audioCtxRef (stopFilePlayback_p0_head s) = audioCtxRef s"
  "analyserRef (stopFilePlayback_p0_head s) = analyserRef s"
  "micSourceRef (stopFilePlayback_p0_head s) = micSourceRef s"
  "micStreamRef (stopFilePlayback_p0_head s) = micStreamRef s"
  "audioElRef (stopFilePlayback_p0_head s) = audioElRef s"
  "mediaElSourceRef (stopFilePlayback_p0_head s) = mediaElSourceRef s"
  "dataArrayRef (stopFilePlayback_p0_head s) = dataArrayRef s"
  "mode (stopFilePlayback_p0_head s) = mode s"
  "isMicOn (stopFilePlayback_p0_head s) = isMicOn s"
  "isFilePlaying (stopFilePlayback_p0_head s) = isFilePlaying s"
  "fileName (stopFilePlayback_p0_head s) = fileName s"
  "currentTrackId (stopFilePlayback_p0_head s) = currentTrackId s"
  "busy (stopFilePlayback_p0_head s) = busy s"
  "error (stopFilePlayback_p0_head s) = error s"
  "canvas (stopFilePlayback_p0_head s) = canvas s"
  "rect_width (stopFilePlayback_p0_head s) = rect_width s"
  "rect_height (stopFilePlayback_p0_head s) = rect_height s"
  "devicePixelRatio (stopFilePlayback_p0_head s) = devicePixelRatio s"
  "spectrum (stopFilePlayback_p0_head s) = spectrum s"
  "live_streams (stopFilePlayback_p0_head s) = live_streams s"
  "ended_hooks (stopFilePlayback_p0_head s) = ended_hooks s"
  "next_id (stopFilePlayback_p0_head s) = next_id s"
  "rafIdRef (stopFilePlayback_p0_head s) = None"
  "fileSourceRef (stopFilePlayback_p0_head s) = None"
  by (simp_all add: stopFilePlayback_p0_head_def Let_def prims split: option.splits)

lemma stopPresetPlayback_t2_head_keeps [simp]:
  "audioCtxRef (stopPresetPlayback_t2_head s) = audioCtxRef s"
  "analyserRef (stopPresetPlayback_t2_head s) = analyserRef s"
  "micSourceRef (stopPresetPlayback_t2_head s) = micSourceRef s"
  "micStreamRef (stopPresetPlayback_t2_head s) = micStreamRef s"
  "fileSourceRef (stopPresetPlayback_t2_head s) = fileSourceRef s"
  "dataArrayRef (stopPresetPlayback_t2_head s) = dataArrayRef s"
  "mode (stopPresetPlayback_t2_head s) = mode s"
  "isMicOn (stopPresetPlayback_t2_head s) = isMicOn s"
  "isFilePlaying (stopPresetPlayback_t2_head s) = isFilePlaying s"
  "fileName (stopPresetPlayback_t2_head s) = fileName s"
  "currentTrackId (stopPresetPlayback_t2_head s) = currentTrackId s"
  "busy (stopPresetPlayback_t2_head s) = busy s"
  "error (stopPresetPlayback_t2_head s) = error s"
  "canvas (stopPresetPlayback_t2_head s) = canvas s"
  "rect_width (stopPresetPlayback_t2_head s) = rect_width s"
  "rect_height (stopPresetPlayback_t2_head s) = rect_height s"
  "devicePixelRatio (stopPresetPlayback_t2_head s) = devicePixelRatio s"
  "spectrum (stopPresetPlayback_t2_head s) = spectrum s"
  "live_streams (stopPresetPlayback_t2_head s) = live_streams s"
  "ended_hooks (stopPresetPlayback_t2_head s) = ended_hooks s"
  "next_id (stopPresetPlayback_t2_head s) = next_id s"
  "rafIdRef (stopPresetPlayback_t2_head s) = None"
  "mediaElSourceRef (stopPresetPlayback_t2_head s) = None"
  by (simp_all add: stopPresetPlayback_t2_head_def Let_def prims split: option.splits)

lemma stopMic_av_head_keeps [simp]:
  "audioCtxRef (stopMic_av_head s) = audioCtxRef s"
  "fileSourceRef (stopMic_av_head s) = fileSourceRef s"
  "audioElRef (stopMic_av_head s) = audioElRef s"
  "mediaElSourceRef (stopMic_av_head s) = mediaElSourceRef s"
  "mode (stopMic_av_head s) = mode s"
  "isMicOn (stopMic_av_head s) = isMicOn s"
  "isFilePlaying (stopMic_av_head s) = isFilePlaying s"
  "fileName (stopMic_av_head s) = fileName s"
  "currentTrackId (stopMic_av_head s) = currentTrackId s"
  "busy (stopMic_av_head s) = busy s"
  "error (stopMic_av_head s) = error s"
  "canvas (stopMic_av_head s) = canvas s"
  "rect_width (stopMic_av_head s) = rect_width s"
  "rect_height (stopMic_av_head s) = rect_height s"
  "devicePixelRatio (stopMic_av_head s) = devicePixelRatio s"
  "spectrum (stopMic_av_head s) = spectrum s"
  "ended_hooks (stopMic_av_head s) = ended_hooks s"
  "next_id (stopMic_av_head s) = next_id s"
  "rafIdRef (stopMic_av_head s) = None"
  "micSourceRef (stopMic_av_head s) = None"
  "micStreamRef (stopMic_av_head s) = None"
  "analyserRef (stopMic_av_head s) = None"
  "dataArrayRef (stopMic_av_head s) = None"
  by (simp_all add: stopMic_av_head_def Let_def prims split: option.splits)

lemma blanked_clearCanvas [simp]: "blanked (clearCanvas s)"
  by (simp add: blanked_def clearCanvas_def Let_def split: option.splits)

lemma canvas_clearCanvas_None [simp]: "canvas (clearCanvas s) = None \<longleftrightarrow> canvas s = None"
  by (simp add: clearCanvas_def Let_def split: option.splits)

lemma canvas_fitCanvas_None [simp]: "canvas (fitCanvas s) = None \<longleftrightarrow> canvas s = None"
  by (simp add: fitCanvas_def Let_def split: option.splits)

lemma blanked_canvas: "canvas s' = canvas s \<Longrightarrow> blanked s' = blanked s"
  by (simp add: blanked_def)

subsection \<open>Runs in closed form\<close>

lemma settled_stopMic_p0: "settled (stopMic_p0 s) = stopMic_p0_rest (closeContext (stopMic_p0_head s))"
  unfolding stopMic_p0_def by (rule settled_teardown) (simp_all add: stopMic_p0_rest_def)

lemma settled_stopFilePlayback_p0:
  "settled (stopFilePlayback_p0 s) = stopFilePlayback_p0_rest (closeContext (stopFilePlayback_p0_head s))"
  unfolding stopFilePlayback_p0_def by (rule settled_teardown) (simp_all add: stopFilePlayback_p0_rest_def)

lemma settled_stopPresetPlayback_t2:
  "settled (stopPresetPlayback_t2 s) = stopPresetPlayback_t2_rest (closeContext (stopPresetPlayback_t2_head s))"
  unfolding stopPresetPlayback_t2_def by (rule settled_teardown) (simp_all add: stopPresetPlayback_t2_rest_def)

lemma settled_onended_p0:
  "settled (onended_p0 n s) =
     (if n \<in> set (ended_hooks s) then onended_p0_rest (closeContext (stopRenderLoop s)) else (s, []))"
proof (cases "n \<in> set (ended_hooks s)")
  case True
  have "settled (await (teardownContext (stopRenderLoop s)) Ended_p0_td onended_p0_rest)
          = onended_p0_rest (closeContext (stopRenderLoop s))"
    by (rule settled_teardown) (simp_all add: onended_p0_rest_def)
  then show ?thesis using True by (simp add: onended_p0_def)
next
  case False
  then show ?thesis by (simp add: onended_p0_def settled_idle)
qed

lemma settled_startMic_p0:
  "settled (startMic_p0 s) = startMic_p0_rest (run_stopFilePlayback_p0 s)"
proof -
  have "settled (await (await (teardownContext (stopFilePlayback_p0_head s)) StopFile_p0_td
            stopFilePlayback_p0_rest) StartMic_p0_stop startMic_p0_rest)
        = startMic_p0_rest (fst (stopFilePlayback_p0_rest (closeContext (stopFilePlayback_p0_head s))))"
    by (rule settled_teardown2) (simp_all add: stopFilePlayback_p0_rest_def startMic_p0_rest_def)
  then show ?thesis
    by (simp add: startMic_p0_def stopFilePlayback_p0_def run_stopFilePlayback_p0_def
        settled_stopFilePlayback_p0[unfolded stopFilePlayback_p0_def])
qed

lemma settled_startFilePlayback_p0:
  "settled (startFilePlayback_p0 name s) = startFilePlayback_p0_rest name (run_stopMic_p0 s)"
proof -
  have "settled (await (await (teardownContext (stopMic_p0_head s)) StopMic_p0_td
            stopMic_p0_rest) (StartFile_p0_stop name) (startFilePlayback_p0_rest name))
        = startFilePlayback_p0_rest name (fst (stopMic_p0_rest (closeContext (stopMic_p0_head s))))"
    by (rule settled_teardown2) (simp_all add: stopMic_p0_rest_def startFilePlayback_p0_rest_def)
  then show ?thesis
    by (simp add: startFilePlayback_p0_def stopMic_p0_def run_stopMic_p0_def
        settled_stopMic_p0[unfolded stopMic_p0_def])
qed

lemma run_stopMic_p0: "run_stopMic_p0 s = fst (stopMic_p0_rest (closeContext (stopMic_p0_head s)))"
  by (simp add: run_stopMic_p0_def settled_stopMic_p0)

lemma run_stopFilePlayback_p0:
  "run_stopFilePlayback_p0 s = fst (stopFilePlayback_p0_rest (closeContext (stopFilePlayback_p0_head s)))"
  by (simp add: run_stopFilePlayback_p0_def settled_stopFilePlayback_p0)

lemma run_stopPresetPlayback_t2:
  "run_stopPresetPlayback_t2 s = fst (stopPresetPlayback_t2_rest (closeContext (stopPresetPlayback_t2_head s)))"
  by (simp add: run_stopPresetPlayback_t2_def settled_stopPresetPlayback_t2)

lemma run_startMic_p0:
  "run_startMic_p0 out s =
     fst (startMic_p0_gum out (emit GetUserMedia ((run_stopFilePlayback_p0 s)\<lparr>error := None\<rparr>)))"
  by (simp add: run_startMic_p0_def settled_startMic_p0 startMic_p0_rest_def continue_def resume_single
      del: resume.simps)

lemma run_startMic_p0_ends: "snd (continue out (settled (startMic_p0 s))) = []"
  by (simp add: settled_startMic_p0 startMic_p0_rest_def continue_def resume_single startMic_p0_gum_def
      Let_def split: outcome.splits prod.splits del: resume.simps)

subsection \<open>The canvas\<close>

lemma binary64_at_mounted:
  "\<lfloor>binary64 (rect_width mounted * devicePixelRatio mounted)\<rfloor> = 1201"
  "\<lfloor>binary64 (rect_height mounted * devicePixelRatio mounted)\<rfloor> = 540"
  "binary64 (rect_width mounted * devicePixelRatio mounted) = rect_width mounted * devicePixelRatio mounted"
  by code_simp+

lemma binary64_at_120:
  "\<lfloor>binary64 (rect_width mounted_at_120 * devicePixelRatio mounted_at_120)\<rfloor> = 960"
  "\<lfloor>binary64 (rect_height mounted_at_120 * devicePixelRatio mounted_at_120)\<rfloor> = 432"
  "devicePixelRatio mounted_at_120 = binary64 (6 / 5)"
  by code_simp+

text \<open>
  Claim C8, as the code has it: \<open>fitCanvas\<close> sets the backing size of a mounted canvas to
  the floor (the claim says ceiling) of layout size times scale factor, the product being
  the double that JavaScript computes, at least 1 in each dimension, where a scale factor
  of 0 counts as 1; applying it twice is applying it once; it reads no pipeline ref and
  changes nothing but the canvas.
\<close>

theorem fitCanvas_floor:
  assumes "canvas s = Some c"
  shows "canvas (fitCanvas s) =
           Some (c\<lparr>width := max 1 \<lfloor>binary64 (rect_width s * (if devicePixelRatio s = 0 then 1 else devicePixelRatio s))\<rfloor>,
                   height := max 1 \<lfloor>binary64 (rect_height s * (if devicePixelRatio s = 0 then 1 else devicePixelRatio s))\<rfloor>\<rparr>)
    \<and> fitCanvas (fitCanvas s) = fitCanvas s
    \<and> fitCanvas s = s\<lparr>canvas := canvas (fitCanvas s)\<rparr>"
  using assms by (simp add: fitCanvas_def Let_def)

text \<open>Claim C8 at the mounted component: 801 by 360 CSS pixels at ratio 1.5 give a
  surface of 1201 by 540. At 800 by 360 CSS pixels and ratio 1.2 the surface is 960 by 432:
  the double product is 960, where the exact product of the two doubles is below 960.\<close>

theorem fitCanvas_floor_witness:
  "canvas (fitCanvas mounted) = Some \<lparr>width = 1201, height = 540, fills = []\<rparr>
   \<and> fitCanvas (fitCanvas mounted) = fitCanvas mounted
   \<and> canvas (fitCanvas mounted_at_120) = Some \<lparr>width = 960, height = 432, fills = []\<rparr>
   \<and> \<lfloor>rect_width mounted_at_120 * devicePixelRatio mounted_at_120\<rfloor> = 959"
proof -
  have c: "canvas mounted = Some \<lparr>width = 300, height = 150, fills = []\<rparr>"
    by (simp add: mounted_def)
  have f: "devicePixelRatio mounted \<noteq> 0"
    by (simp add: mounted_def)
  have 1: "canvas (fitCanvas mounted) = Some \<lparr>width = 1201, height = 540, fills = []\<rparr>
      \<and> fitCanvas (fitCanvas mounted) = fitCanvas mounted"
    using fitCanvas_floor[OF c] by (simp only: f if_False binary64_at_mounted(1,2)) simp
  have c': "canvas mounted_at_120 = Some \<lparr>width = 300, height = 150, fills = []\<rparr>"
    by (simp add: mounted_at_120_def mounted_def)
  have f': "devicePixelRatio mounted_at_120 \<noteq> 0"
    by (simp add: mounted_at_120_def)
  have 2: "canvas (fitCanvas mounted_at_120) = Some \<lparr>width = 960, height = 432, fills = []\<rparr>"
    using fitCanvas_floor[OF c'] by (simp only: f' if_False binary64_at_120(1,2)) simp
  have 3: "\<lfloor>rect_width mounted_at_120 * devicePixelRatio mounted_at_120\<rfloor> = 959"
    by (simp add: mounted_at_120_def mounted_def floor_eq_iff)
  show ?thesis using 1 2 3 by simp
qed

text \<open>Claim C8 as stated fails: the width becomes 1201, the ceiling of 1201.5 is 1202.\<close>

theorem fitCanvas_not_ceiling:
  "map_option width (canvas (fitCanvas mounted)) = Some 1201
   \<and> binary64 (rect_width mounted * devicePixelRatio mounted) = rect_width mounted * devicePixelRatio mounted
   \<and> \<lceil>rect_width mounted * devicePixelRatio mounted\<rceil> = 1202
   \<and> map_option width (canvas (fitCanvas mounted)) \<noteq> Some \<lceil>rect_width mounted * devicePixelRatio mounted\<rceil>"
proof -
  have f: "devicePixelRatio mounted \<noteq> 0"
    "canvas mounted = Some \<lparr>width = 300, height = 150, fills = []\<rparr>"
    by (simp_all add: mounted_def)
  have a: "map_option width (canvas (fitCanvas mounted)) = Some 1201"
    unfolding fitCanvas_def Let_def by (simp only: f if_False binary64_at_mounted(1,2)) simp
  have b: "\<lceil>rect_width mounted * devicePixelRatio mounted\<rceil> = 1202"
    by (simp add: mounted_def ceiling_eq_iff)
  show ?thesis unfolding a b using binary64_at_mounted(3) by simp
qed

subsection \<open>The render loop\<close>

text \<open>
  Claim C9: a step of the render loop (\<open>draw\<close> with canvas, analyser and buffer in place)
  first requests the next frame, then samples the analyser into the buffer, then paints
  the fade overlay over the whole surface and, for each bin \<open>i\<close> of \<open>n\<close>, one bar of
  height \<open>v / 255 * (H * 0.9)\<close> in hue \<open>i / n * 300\<close>; the hue of bin 0 is 0 and that of
  the last bin is \<open>300 - 300 / n\<close>, which is 297.65625 for 128 bins.
\<close>

theorem draw_step:
  assumes "canvas s = Some c" and "analyserRef s = Some a" and "dataArrayRef s = Some (b, d)"
  shows "since s (draw s) =
      [RequestFrame (next_id s), GetByteFrequencyData (an_id a),
       FillRect Fade 0 0 (of_int (width c)) (of_int (height c))] @
      map (\<lambda>i. FillRect (Hsl (of_nat i / of_nat (length d) * 300))
                 (of_nat i * ((of_int (width c) / of_nat (length d)) * (11 / 5) + 1))
                 (of_int (height c) - of_nat (sample (spectrum s) d ! i) / 255 * (of_int (height c) * (9 / 10)))
                 ((of_int (width c) / of_nat (length d)) * (11 / 5))
                 (of_nat (sample (spectrum s) d ! i) / 255 * (of_int (height c) * (9 / 10))))
          [0..<length d]
    \<and> scheduled (draw s) = scheduled s @ [next_id s]
    \<and> dataArrayRef (draw s) = Some (b, sample (spectrum s) d)
    \<and> hue 0 (length d) = 0
    \<and> hue (length d - 1) (length d) = (if d = [] then 0 else 300 - 300 / of_nat (length d))
    \<and> hue 127 128 = 300 - 75 / 32"
proof -
  have 1: "since s (draw s) =
      [RequestFrame (next_id s), GetByteFrequencyData (an_id a),
       FillRect Fade 0 0 (of_int (width c)) (of_int (height c))] @
      map (\<lambda>i. FillRect (Hsl (of_nat i / of_nat (length d) * 300))
                 (of_nat i * ((of_int (width c) / of_nat (length d)) * (11 / 5) + 1))
                 (of_int (height c) - of_nat (sample (spectrum s) d ! i) / 255 * (of_int (height c) * (9 / 10)))
                 ((of_int (width c) / of_nat (length d)) * (11 / 5))
                 (of_nat (sample (spectrum s) d ! i) / 255 * (of_int (height c) * (9 / 10))))
          [0..<length d]"
    using assms
    by (simp add: draw_def since_def frame_fills_def Let_def bars_map paint_def length_sample barW_def)
  have 2: "scheduled (draw s) = scheduled s @ [next_id s]"
    and 3: "dataArrayRef (draw s) = Some (b, sample (spectrum s) d)"
    using assms by (simp_all add: draw_def Let_def)
  have 4: "hue 0 (length d) = 0" and 6: "hue 127 128 = 300 - 75 / 32"
    by (simp_all add: hue_def)
  have 5: "hue (length d - 1) (length d) = (if d = [] then 0 else 300 - 300 / of_nat (length d))"
  proof (cases "d = []")
    case True
    then show ?thesis by (simp add: hue_def)
  next
    case False
    then have "0 < length d" by simp
    from hue_last[OF this] show ?thesis using False by simp
  qed
  show ?thesis using 1 2 3 4 5 6 by blast
qed

text \<open>Claim C9 on four bins with spectrum 0, 255, 51 on a canvas of 400 by 100.\<close>

theorem draw_step_witness:
  "since four_bins (draw four_bins) =
     [RequestFrame 10, GetByteFrequencyData 7, FillRect Fade 0 0 400 100,
      FillRect (Hsl 0) 0 100 220 0,
      FillRect (Hsl 75) 221 10 220 90,
      FillRect (Hsl 150) 442 82 220 18,
      FillRect (Hsl 225) 663 100 220 0]"
proof -
  have h: "canvas four_bins = Some \<lparr>width = 400, height = 100, fills = []\<rparr>"
    "analyserRef four_bins = Some \<lparr>an_id = 7, fftSize = 8, smoothingTimeConstant = 4 / 5\<rparr>"
    "dataArrayRef four_bins = Some (9, [0, 0, 0, 0])"
    by (simp_all add: four_bins_def mounted_def)
  have u: "[0..<4] = [0, 1, 2, 3]" by (simp add: upt_rec)
  have sp: "spectrum four_bins = [0, 255, 51]" "next_id four_bins = 10"
    by (simp_all add: four_bins_def mounted_def)
  show ?thesis
    using draw_step[OF h] by (simp add: sample_def u sp)
qed

subsection \<open>The log only grows\<close>

lemma grows_emit [simp]: "prefix t (trace s) \<Longrightarrow> prefix t (trace (emit e s))"
  by (simp add: emit_def)

lemma grows_connect [simp]: "prefix t (trace s) \<Longrightarrow> prefix t (trace (connect n x s))"
  by (simp add: connect_def)

lemma grows_disconnect [simp]: "prefix t (trace s) \<Longrightarrow> prefix t (trace (disconnect n s))"
  by (simp add: disconnect_def)

lemma grows_stopTracks [simp]: "prefix t (trace s) \<Longrightarrow> prefix t (trace (stopTracks n s))"
  by (simp add: stopTracks_def)

lemma grows_stopRenderLoop [simp]: "prefix t (trace s) \<Longrightarrow> prefix t (trace (stopRenderLoop s))"
  by (simp add: stopRenderLoop_def split: option.splits)

lemma grows_clearCanvas [simp]: "prefix t (trace s) \<Longrightarrow> prefix t (trace (clearCanvas s))"
  by (auto simp: clearCanvas_def Let_def prefix_def split: option.splits)

lemma grows_draw [simp]: "prefix t (trace s) \<Longrightarrow> prefix t (trace (draw s))"
  by (auto simp: draw_def Let_def prefix_def split: option.splits)

lemma grows_closeContext [simp]: "prefix t (trace s) \<Longrightarrow> prefix t (trace (closeContext s))"
  by (simp add: closeContext_def td_finally_def split: option.splits)

lemma since_same [simp]: "since s s = []"
  by (simp add: since_def)

lemma since_append: "trace s' = trace s @ es \<Longrightarrow> since s s' = es"
  by (simp add: since_def)

lemma trace_since: "prefix (trace s) (trace s') \<Longrightarrow> trace s' = trace s @ since s s'"
  by (auto simp: since_def prefix_def)

subsection \<open>A failed capture request\<close>

text \<open>
  Claim C6, as the code has it: when \<open>getUserMedia\<close> rejects, \<open>startMic\<close> (part\_000, run alone from any
  state) ends with mode idle, \<open>isMicOn\<close> false, the canvas blanked and the error set to the
  rejection's message or, when it has none, to the fixed text; the call has ended and asks
  the host for no further stream. In AudioVisualizer.tsx, which has no mode, the same holds
  for the flag, the canvas and the message. The message is empty only when the rejection
  carries the empty string as its message.
\<close>

theorem startMic_failure:
  "mode (run_startMic_p0 (Rejected m) s) = Idle
    \<and> \<not> isMicOn (run_startMic_p0 (Rejected m) s)
    \<and> blanked (run_startMic_p0 (Rejected m) s)
    \<and> error (run_startMic_p0 (Rejected m) s) = Some (message m ''Microphone permission denied or unavailable.'')
    \<and> (error (run_startMic_p0 (Rejected m) s) = Some []) = (m = Some [])
    \<and> snd (continue (Rejected m) (settled (startMic_p0 s))) = []
    \<and> GetUserMedia \<notin> set (since (fst (settled (startMic_p0 s))) (run_startMic_p0 (Rejected m) s))
    \<and> \<not> isMicOn (run_startMic_av (Rejected m) s)
    \<and> blanked (run_startMic_av (Rejected m) s)
    \<and> error (run_startMic_av (Rejected m) s) = Some (message m ''Microphone permission denied or unavailable.'')
    \<and> (error (run_startMic_av (Rejected m) s) = Some []) = (m = Some [])
    \<and> snd (continue (Rejected m) (startMic_av s)) = []
    \<and> GetUserMedia \<notin> set (since (fst (startMic_av s)) (run_startMic_av (Rejected m) s))"
proof -
  have ne: "(message m ''Microphone permission denied or unavailable.'' = []) = (m = Some [])"
    by (cases m) (simp_all add: message_def)
  have cl: "GetUserMedia \<notin> set (since x (clearCanvas (x\<lparr>error := e\<rparr>)))" for x e
    by (simp add: since_def clearCanvas_def Let_def split: option.splits)
  have p0: "mode (run_startMic_p0 (Rejected m) s) = Idle"
    "\<not> isMicOn (run_startMic_p0 (Rejected m) s)"
    "blanked (run_startMic_p0 (Rejected m) s)"
    "error (run_startMic_p0 (Rejected m) s) = Some (message m ''Microphone permission denied or unavailable.'')"
    by (simp_all add: run_startMic_p0 startMic_p0_gum_def Let_def
        blanked_canvas[where s = "clearCanvas x" for x])
  have p0e: "snd (continue (Rejected m) (settled (startMic_p0 s))) = []"
    by (rule run_startMic_p0_ends)
  have p0r: "GetUserMedia \<notin> set (since (fst (settled (startMic_p0 s))) (run_startMic_p0 (Rejected m) s))"
    using cl by (simp add: run_startMic_p0 settled_startMic_p0 startMic_p0_rest_def startMic_p0_gum_def Let_def since_def)
  have av: "\<not> isMicOn (run_startMic_av (Rejected m) s)"
    "blanked (run_startMic_av (Rejected m) s)"
    "error (run_startMic_av (Rejected m) s) = Some (message m ''Microphone permission denied or unavailable.'')"
    "snd (continue (Rejected m) (startMic_av s)) = []"
    by (simp_all add: run_startMic_av_def startMic_av_def continue_def resume_single startMic_av_gum_def Let_def
        blanked_canvas[where s = "clearCanvas x" for x] del: resume.simps)
  have avr: "GetUserMedia \<notin> set (since (fst (startMic_av s)) (run_startMic_av (Rejected m) s))"
    using cl by (simp add: run_startMic_av_def startMic_av_def continue_def resume_single startMic_av_gum_def Let_def
        since_def del: resume.simps)
  show ?thesis using p0 p0e p0r av avr ne by simp
qed

text \<open>Claim C6 as stated fails: \<open>e?.message ?? \<dots>\<close> keeps a message that is the empty string,
  and the error surfaced is empty.\<close>

theorem empty_message_surfaced:
  "error (run_startMic_p0 (Rejected (Some [])) mounted) = Some []
   \<and> error (run_startMic_av (Rejected (Some [])) mounted) = Some []"
  by (simp add: run_startMic_p0 startMic_p0_gum_def Let_def run_startMic_av_def startMic_av_def
      continue_def resume_single startMic_av_gum_def message_def del: resume.simps)

subsection \<open>The frequency buffer\<close>

lemma next_id_run_stopMic_p0 [simp]: "next_id (run_stopMic_p0 s) = next_id s"
  by (simp add: run_stopMic_p0 stopMic_p0_rest_def setMode_def)

lemma next_id_run_stopFilePlayback_p0 [simp]: "next_id (run_stopFilePlayback_p0 s) = next_id s"
  by (simp add: run_stopFilePlayback_p0 stopFilePlayback_p0_rest_def setMode_def)

lemma dataArrayRef_run_stopMic_p0 [simp]: "dataArrayRef (run_stopMic_p0 s) = None"
  by (simp add: run_stopMic_p0 stopMic_p0_rest_def setMode_def)

lemma draw_buffer:
  "map_option fst (dataArrayRef (draw s)) = map_option fst (dataArrayRef s)"
  "map_option (length \<circ> snd) (dataArrayRef (draw s)) = map_option (length \<circ> snd) (dataArrayRef s)"
  "next_id s \<le> next_id (draw s)"
  by (simp_all add: draw_def Let_def length_sample split: option.splits)

lemma wireMic_fields:
  "micStreamRef (wireMic s) = Some (next_id s)"
  "audioCtxRef (wireMic s) = Some (next_id s + 1)"
  "analyserRef (wireMic s) = Some \<lparr>an_id = next_id s + 2, fftSize = 256, smoothingTimeConstant = 4 / 5\<rparr>"
  "micSourceRef (wireMic s) = Some (next_id s + 3)"
  "dataArrayRef (wireMic s) = Some (next_id s + 4, replicate 128 0)"
  "next_id (wireMic s) = next_id s + 5"
  by (simp_all add: wireMic_def Let_def prims frequencyBinCount_def)

lemma wireMic_keeps [simp]:
  "canvas (wireMic s) = canvas s"
  "fileSourceRef (wireMic s) = fileSourceRef s"
  "mode (wireMic s) = mode s"
  by (simp_all add: wireMic_def Let_def prims)

lemma startMic_p0_buffer:
  "map_option fst (dataArrayRef (run_startMic_p0 Resolved s)) = Some (next_id s + 4)"
  "map_option (length \<circ> snd) (dataArrayRef (run_startMic_p0 Resolved s)) = Some 128"
  "map_option frequencyBinCount (analyserRef (run_startMic_p0 Resolved s)) = Some 128"
  "next_id s + 5 \<le> next_id (run_startMic_p0 Resolved s)"
proof -
  let ?x = "emit GetUserMedia ((run_stopFilePlayback_p0 s)\<lparr>error := None\<rparr>)"
  have n: "next_id ?x = next_id s" by (simp add: emit_def)
  have r: "run_startMic_p0 Resolved s =
      (draw (clearCanvas (fitCanvas (wireMic ?x))))\<lparr>mode := Mic, isMicOn := True, isFilePlaying := False, fileName := None\<rparr>"
    by (simp add: run_startMic_p0 startMic_p0_gum_def Let_def)
  show "map_option fst (dataArrayRef (run_startMic_p0 Resolved s)) = Some (next_id s + 4)"
    "map_option (length \<circ> snd) (dataArrayRef (run_startMic_p0 Resolved s)) = Some 128"
    "map_option frequencyBinCount (analyserRef (run_startMic_p0 Resolved s)) = Some 128"
    unfolding r by (simp_all add: draw_buffer wireMic_fields n frequencyBinCount_def)
  show "next_id s + 5 \<le> next_id (run_startMic_p0 Resolved s)"
    unfolding r using draw_buffer(3)[of "clearCanvas (fitCanvas (wireMic ?x))"]
    by (simp add: wireMic_fields n)
qed

lemma run_stopMic_av:
  "run_stopMic_av s = fst (stopMic_av_rest (case audioCtxRef s of None \<Rightarrow> stopMic_av_head s
      | Some c \<Rightarrow> emit (Close c) (emit (Suspend c) (stopMic_av_head s))))"
  and run_stopMic_av_ends: "snd (settled (stopMic_av s)) = []"
  by (cases "audioCtxRef s";
      simp add: run_stopMic_av_def stopMic_av_def Let_def settled_def settle_def continue_def
        resume_single stopMic_av_suspended_def stopMic_av_rest_def emit_def del: resume.simps)+

lemma startMic_av_buffer:
  "map_option fst (dataArrayRef (run_startMic_av Resolved s)) = Some (next_id s + 4)"
  "map_option (length \<circ> snd) (dataArrayRef (run_startMic_av Resolved s)) = Some 128"
  "map_option frequencyBinCount (analyserRef (run_startMic_av Resolved s)) = Some 128"
  "next_id s + 5 \<le> next_id (run_startMic_av Resolved s)"
proof -
  let ?x = "emit GetUserMedia (s\<lparr>error := None\<rparr>)"
  have n: "next_id ?x = next_id s" by (simp add: emit_def)
  have r: "run_startMic_av Resolved s = (draw (clearCanvas (fitCanvas (wireMic ?x))))\<lparr>isMicOn := True\<rparr>"
    by (simp add: run_startMic_av_def startMic_av_def continue_def resume_single startMic_av_gum_def Let_def
        del: resume.simps)
  show "map_option fst (dataArrayRef (run_startMic_av Resolved s)) = Some (next_id s + 4)"
    "map_option (length \<circ> snd) (dataArrayRef (run_startMic_av Resolved s)) = Some 128"
    "map_option frequencyBinCount (analyserRef (run_startMic_av Resolved s)) = Some 128"
    unfolding r by (simp_all add: draw_buffer wireMic_fields n frequencyBinCount_def)
  show "next_id s + 5 \<le> next_id (run_startMic_av Resolved s)"
    unfolding r using draw_buffer(3)[of "clearCanvas (fitCanvas (wireMic ?x))"]
    by (simp add: wireMic_fields n)
qed

lemma run_stopMic_av_fields [simp]:
  "next_id (run_stopMic_av s) = next_id s" "dataArrayRef (run_stopMic_av s) = None"
  by (cases "audioCtxRef s"; simp add: run_stopMic_av stopMic_av_rest_def emit_def)+

text \<open>
  Claim C7: \<open>startMic\<close>, \<open>stopMic\<close>, \<open>startMic\<close>, each run alone with
  \<open>getUserMedia\<close> resolving: after each start the buffer has 128 bytes, the bin count of the
  analyser of window 256; after the stop there is no buffer; the second start's buffer is
  not the first's. This holds in part\_000 and in AudioVisualizer.tsx, from any state.
\<close>

theorem fresh_buffer_each_start:
  "map_option (length \<circ> snd) (dataArrayRef (run_startMic_p0 Resolved s)) = Some 128
   \<and> map_option frequencyBinCount (analyserRef (run_startMic_p0 Resolved s)) = Some 128
   \<and> dataArrayRef (run_stopMic_p0 (run_startMic_p0 Resolved s)) = None
   \<and> map_option (length \<circ> snd)
        (dataArrayRef (run_startMic_p0 Resolved (run_stopMic_p0 (run_startMic_p0 Resolved s)))) = Some 128
   \<and> map_option frequencyBinCount
        (analyserRef (run_startMic_p0 Resolved (run_stopMic_p0 (run_startMic_p0 Resolved s)))) = Some 128
   \<and> map_option fst (dataArrayRef (run_startMic_p0 Resolved (run_stopMic_p0 (run_startMic_p0 Resolved s))))
       \<noteq> map_option fst (dataArrayRef (run_startMic_p0 Resolved s))
   \<and> map_option (length \<circ> snd) (dataArrayRef (run_startMic_av Resolved s)) = Some 128
   \<and> map_option frequencyBinCount (analyserRef (run_startMic_av Resolved s)) = Some 128
   \<and> dataArrayRef (run_stopMic_av (run_startMic_av Resolved s)) = None
   \<and> map_option (length \<circ> snd)
        (dataArrayRef (run_startMic_av Resolved (run_stopMic_av (run_startMic_av Resolved s)))) = Some 128
   \<and> map_option frequencyBinCount
        (analyserRef (run_startMic_av Resolved (run_stopMic_av (run_startMic_av Resolved s)))) = Some 128
   \<and> map_option fst (dataArrayRef (run_startMic_av Resolved (run_stopMic_av (run_startMic_av Resolved s))))
       \<noteq> map_option fst (dataArrayRef (run_startMic_av Resolved s))"
proof -
  have p0: "next_id (run_startMic_p0 Resolved s) \<noteq> next_id s"
    using startMic_p0_buffer(4)[of s] by arith
  have av: "next_id (run_startMic_av Resolved s) \<noteq> next_id s"
    using startMic_av_buffer(4)[of s] by arith
  show ?thesis
    by (simp add: startMic_p0_buffer startMic_av_buffer p0 av)
qed

subsection \<open>Switching from the microphone to a file\<close>

lemma since_trans:
  "prefix (trace a) (trace b) \<Longrightarrow> prefix (trace b) (trace c) \<Longrightarrow> since a c = since a b @ since b c"
  by (auto simp: since_def prefix_def)

lemma grows_td_finally [simp]: "trace (td_finally s) = trace s"
  by (simp add: td_finally_def)

lemma grows_fitCanvas [simp]: "trace (fitCanvas s) = trace s"
  by simp

lemma grows_wireMic [simp]: "prefix t (trace s) \<Longrightarrow> prefix t (trace (wireMic s))"
  by (simp add: wireMic_def Let_def prims)

lemma grows_stopMic_p0_head [simp]: "prefix t (trace s) \<Longrightarrow> prefix t (trace (stopMic_p0_head s))"
  by (simp add: stopMic_p0_head_def Let_def split: option.splits)

lemma grows_stopPresetPlayback_t2_head [simp]:
  "prefix t (trace s) \<Longrightarrow> prefix t (trace (stopPresetPlayback_t2_head s))"
  by (simp add: stopPresetPlayback_t2_head_def Let_def split: option.splits)

lemma grows_run_stopMic_p0: "prefix t (trace (stopMic_p0_head s)) \<Longrightarrow> prefix t (trace (run_stopMic_p0 s))"
  by (simp add: run_stopMic_p0 stopMic_p0_rest_def setMode_def)

lemma grows_startFilePlayback_p0_catch [simp]:
  "prefix t (trace s) \<Longrightarrow> prefix t (trace (fst (startFilePlayback_p0_catch m s)))"
  by (simp add: startFilePlayback_p0_catch_def Let_def)

lemma grows_startFilePlayback_p0_buf [simp]:
  "prefix t (trace s) \<Longrightarrow> prefix t (trace (fst (startFilePlayback_p0_buf name out s)))"
  by (simp add: startFilePlayback_p0_buf_def Let_def prims split: outcome.splits)

lemma grows_startFilePlayback_p0_decode [simp]:
  "prefix t (trace s) \<Longrightarrow> prefix t (trace (fst (startFilePlayback_p0_decode name c a out s)))"
  by (simp add: startFilePlayback_p0_decode_def Let_def fresh_def bump_def newUint8Array_def
      split: outcome.splits)

lemma grows_resume_file [simp]:
  "prefix t (trace s) \<Longrightarrow> prefix t (trace (fst (continue out (s, [StartFile_p0_buf name]))))"
  "prefix t (trace s) \<Longrightarrow> prefix t (trace (fst (continue out (s, [StartFile_p0_decode name c a]))))"
  "prefix t (trace s) \<Longrightarrow> prefix t (trace (fst (continue out (s, []))))"
  by (simp_all add: continue_def resume_single del: resume.simps(2))

lemma startFilePlayback_p0_buf_frames:
  "snd (startFilePlayback_p0_buf name out s) = [] \<or>
   (\<exists>c a. snd (startFilePlayback_p0_buf name out s) = [StartFile_p0_decode name c a])"
  by (simp add: startFilePlayback_p0_buf_def Let_def prims startFilePlayback_p0_catch_def
      split: outcome.splits)

lemma grows_run_startFilePlayback_p0:
  "prefix t (trace (run_stopMic_p0 s)) \<Longrightarrow> prefix t (trace (run_startFilePlayback_p0 name o1 o2 s))"
proof -
  assume t: "prefix t (trace (run_stopMic_p0 s))"
  let ?y = "emit ArrayBuffer ((run_stopMic_p0 s)\<lparr>error := None\<rparr>)"
  obtain z fs where z: "startFilePlayback_p0_buf name o1 ?y = (z, fs)" by force
  have pz: "prefix t (trace z)"
    using grows_startFilePlayback_p0_buf[of t ?y name o1] t z by simp
  have r: "run_startFilePlayback_p0 name o1 o2 s = fst (continue o2 (z, fs))"
    by (simp add: run_startFilePlayback_p0_def settled_startFilePlayback_p0 startFilePlayback_p0_rest_def
        continue_def resume_single z del: resume.simps(2))
  from startFilePlayback_p0_buf_frames[of name o1 ?y] z
  have "fs = [] \<or> (\<exists>c a. fs = [StartFile_p0_decode name c a])" by simp
  then show ?thesis
    unfolding r using pz by (auto simp del: resume.simps(2))
qed

lemma mic_stopped_first:
  "micStreamRef s = Some st \<Longrightarrow> precedes (TrackStop st) is_playback (since s (stopMic_p0_head s) @ ys)"
  by (cases "rafIdRef s"; cases "micSourceRef s";
      simp add: stopMic_p0_head_def stopRenderLoop_def Let_def prims since_def)

lemma prefix_stopMic_p0_head: "prefix (trace s) (trace (stopMic_p0_head s))"
  by simp

lemma run_stopMic_p0_ctx [simp]: "audioCtxRef (run_stopMic_p0 s) = None"
  by (simp add: run_stopMic_p0 stopMic_p0_rest_def setMode_def)

lemma startPreset_t2_rest_closed:
  "audioCtxRef y = None \<Longrightarrow>
   startPreset_t2_rest tr y =
     startPreset_t2_body tr (fst (stopPresetPlayback_t2_rest (td_finally (stopPresetPlayback_t2_head y))))"
  by (simp add: startPreset_t2_rest_def stopPresetPlayback_t2_def teardownContext_def
      stopPresetPlayback_t2_rest_def)

lemma startPreset_t2_body_frames:
  "snd (startPreset_t2_body tr s) = (if source_refused s then [] else [StartPreset_t2_play tr])"
  by (simp add: startPreset_t2_body_def Let_def prims ensureAudioElement_def source_refused_def
      startPreset_t2_catch_def split: option.splits prod.splits)

lemma startPreset_t2_body_idle [simp]: "\<not> waits_for_context (snd (startPreset_t2_body tr s))"
  by (simp add: startPreset_t2_body_frames)

lemma settled_startPreset_t2:
  "settled (startPreset_t2 tr s) = startPreset_t2_rest tr (run_stopMic_p0 s)"
proof -
  have "settled (await (await (teardownContext (stopMic_p0_head s)) StopMic_p0_td stopMic_p0_rest)
           (StartPreset_t2_stopMic tr) (startPreset_t2_rest tr))
        = startPreset_t2_rest tr (fst (stopMic_p0_rest (closeContext (stopMic_p0_head s))))"
  proof (rule settled_teardown2)
    have a: "audioCtxRef (fst (stopMic_p0_rest (closeContext (stopMic_p0_head s)))) = None"
      by (simp add: stopMic_p0_rest_def setMode_def)
    show "\<not> waits_for_context (snd (startPreset_t2_rest tr (fst (stopMic_p0_rest (closeContext (stopMic_p0_head s))))))"
      by (simp add: startPreset_t2_rest_closed[OF a])
  qed (simp_all add: stopMic_p0_rest_def)
  then show ?thesis
    by (simp add: startPreset_t2_def stopMic_p0_def run_stopMic_p0)
qed

lemma grows_startPreset_t2_catch [simp]:
  "prefix t (trace s) \<Longrightarrow> prefix t (trace (fst (startPreset_t2_catch m s)))"
  by (simp add: startPreset_t2_catch_def Let_def)

lemma grows_startPreset_t2_body [simp]:
  "prefix t (trace s) \<Longrightarrow> prefix t (trace (fst (startPreset_t2_body tr s)))"
  by (simp add: startPreset_t2_body_def Let_def prims ensureAudioElement_def split: option.splits)

lemma grows_startPreset_t2_play [simp]:
  "prefix t (trace s) \<Longrightarrow> prefix t (trace (fst (startPreset_t2_play tr out s)))"
  by (simp add: startPreset_t2_play_def Let_def split: outcome.splits)

text \<open>The run of \<open>startPreset\<close> from the state \<open>y\<close> in which its body starts.\<close>

lemma run_startPreset_t2:
  "run_startPreset_t2 tr out s =
     fst (continue out (startPreset_t2_body tr
       (fst (stopPresetPlayback_t2_rest (td_finally (stopPresetPlayback_t2_head (run_stopMic_p0 s)))))))"
  by (simp add: run_startPreset_t2_def settled_startPreset_t2 startPreset_t2_rest_closed)

lemma continue_body_t2:
  "fst (continue out (startPreset_t2_body tr y)) =
     (if source_refused y then fst (startPreset_t2_body tr y)
      else fst (startPreset_t2_play tr out (fst (startPreset_t2_body tr y))))"
proof -
  obtain z fs where z: "startPreset_t2_body tr y = (z, fs)" by force
  with startPreset_t2_body_frames[of tr y]
  have "fs = (if source_refused y then [] else [StartPreset_t2_play tr])" by simp
  then show ?thesis
    by (simp add: z continue_def resume_single del: resume.simps(2))
qed

lemma grows_run_startPreset_t2:
  "prefix t (trace (run_stopMic_p0 s)) \<Longrightarrow> prefix t (trace (run_startPreset_t2 tr out s))"
  by (simp add: run_startPreset_t2 continue_body_t2 stopPresetPlayback_t2_rest_def setMode_def)

lemma in_since: "prefix (trace s) t \<Longrightarrow> e \<in> set (drop (length (trace s)) (t @ [e]))"
  by (auto simp: prefix_def)

lemma since_mono: "prefix (trace a) (trace b) \<Longrightarrow> prefix (trace b) (trace c) \<Longrightarrow> e \<in> set (since a b)
  \<Longrightarrow> e \<in> set (since a c)"
  using since_trans[of a b c] by auto

lemma playback_started_p0:
  "SourceStart (next_id s + 2) \<in> set (since s (run_startFilePlayback_p0 name Resolved Resolved s))"
proof -
  let ?y = "emit ArrayBuffer ((run_stopMic_p0 s)\<lparr>error := None\<rparr>)"
  have p: "prefix (trace s) (trace ?y)"
    by (intro grows_emit) (simp add: grows_run_stopMic_p0)
  obtain z c a where z: "startFilePlayback_p0_buf name Resolved ?y = (z, [StartFile_p0_decode name c a])"
    by (simp add: startFilePlayback_p0_buf_def Let_def prims)
  have pz: "prefix (trace s) (trace z)"
    using grows_startFilePlayback_p0_buf[OF p, of name Resolved] z by simp
  have nz: "next_id z = next_id s + 2"
    using z by (auto simp: startFilePlayback_p0_buf_def Let_def prims)
  have r: "run_startFilePlayback_p0 name Resolved Resolved s
            = fst (startFilePlayback_p0_decode name c a Resolved z)"
    by (simp add: run_startFilePlayback_p0_def settled_startFilePlayback_p0 startFilePlayback_p0_rest_def
        continue_def resume_single z del: resume.simps(2))
  show ?thesis
    unfolding r using pz
    by (simp add: startFilePlayback_p0_decode_def Let_def fresh_def bump_def newUint8Array_def emit_def
        since_def in_since nz del: drop_append)
qed

lemma body_plays:
  "prefix (trace s) (trace y) \<Longrightarrow> \<not> source_refused y \<Longrightarrow>
   Play \<in> set (since s (fst (startPreset_t2_body tr y)))"
  by (auto simp: startPreset_t2_body_def Let_def fresh_def bump_def newUint8Array_def emit_def
      newAudioContext_def createAnalyser_def ensureAudioElement_def since_def in_since connect_def
      source_refused_def simp del: drop_append split: option.splits)

text \<open>The capture streams whose tracks run, along the switch.\<close>

lemma live_streams_stopMic_p0_head:
  "live_streams (stopMic_p0_head s) =
     (case micStreamRef s of None \<Rightarrow> live_streams s | Some st \<Rightarrow> removeAll st (live_streams s))"
  by (simp add: stopMic_p0_head_def stopRenderLoop_def Let_def prims split: option.splits)

lemma live_streams_run_stopMic_p0:
  "live_streams (run_stopMic_p0 s) =
     (case micStreamRef s of None \<Rightarrow> live_streams s | Some st \<Rightarrow> removeAll st (live_streams s))"
  by (simp add: run_stopMic_p0 stopMic_p0_rest_def setMode_def live_streams_stopMic_p0_head)

lemma live_streams_startFilePlayback_p0_steps [simp]:
  "live_streams (fst (startFilePlayback_p0_catch m s)) = live_streams s"
  "live_streams (fst (startFilePlayback_p0_buf name out s)) = live_streams s"
  "live_streams (fst (startFilePlayback_p0_decode name c a out s)) = live_streams s"
  by (simp_all add: startFilePlayback_p0_catch_def startFilePlayback_p0_buf_def
      startFilePlayback_p0_decode_def Let_def prims split: outcome.splits)

lemma live_streams_run_startFilePlayback_p0:
  "live_streams (run_startFilePlayback_p0 name o1 o2 s) = live_streams (run_stopMic_p0 s)"
proof -
  let ?y = "emit ArrayBuffer ((run_stopMic_p0 s)\<lparr>error := None\<rparr>)"
  obtain z fs where z: "startFilePlayback_p0_buf name o1 ?y = (z, fs)" by force
  have a: "live_streams (fst (startFilePlayback_p0_buf name o1 ?y)) = live_streams ?y"
    by simp
  have b: "live_streams ?y = live_streams (run_stopMic_p0 s)"
    by (simp add: emit_def)
  have lz: "live_streams z = live_streams (run_stopMic_p0 s)"
    using a b unfolding z by simp
  have r: "run_startFilePlayback_p0 name o1 o2 s = fst (continue o2 (z, fs))"
    by (simp add: run_startFilePlayback_p0_def settled_startFilePlayback_p0 startFilePlayback_p0_rest_def
        continue_def resume_single z del: resume.simps(2))
  from startFilePlayback_p0_buf_frames[of name o1 ?y] z
  have "fs = [] \<or> (\<exists>c a. fs = [StartFile_p0_decode name c a])" by simp
  then show ?thesis
    unfolding r using lz by (auto simp: continue_def resume_single simp del: resume.simps(2))
qed

lemma live_streams_startPreset_t2_steps [simp]:
  "live_streams (fst (startPreset_t2_catch m s)) = live_streams s"
  "live_streams (fst (startPreset_t2_play tr out s)) = live_streams s"
  "live_streams (fst (startPreset_t2_body tr s)) = live_streams s"
  by (simp_all add: startPreset_t2_catch_def startPreset_t2_play_def startPreset_t2_body_def
      ensureAudioElement_def Let_def prims split: outcome.splits option.splits)

lemma live_streams_run_startPreset_t2:
  "live_streams (run_startPreset_t2 tr out s) = live_streams (run_stopMic_p0 s)"
  by (simp add: run_startPreset_t2 continue_body_t2 stopPresetPlayback_t2_rest_def setMode_def
      td_finally_def)

lemma stopPresetPlayback_t2_head_keeps_el:
  "audioElRef (stopPresetPlayback_t2_head s) = map_option (\<lambda>el. el\<lparr>onended := False, currentTime := 0\<rparr>) (audioElRef s)"
  by (simp add: stopPresetPlayback_t2_head_def Let_def prims split: option.splits)


lemma audioElRef_run_stopMic_p0: "audioElRef (run_stopMic_p0 s) = audioElRef s"
  by (simp add: run_stopMic_p0 stopMic_p0_rest_def setMode_def)

lemma host_single_source_run_stopMic_p0: "host_single_source (run_stopMic_p0 s) = host_single_source s"
  by (simp add: run_stopMic_p0 stopMic_p0_rest_def setMode_def clearCanvas_def closeContext_def
      td_finally_def stopMic_p0_head_def stopRenderLoop_def Let_def prims split: option.splits)

lemma host_single_source_stopPresetPlayback_t2_head:
  "host_single_source (stopPresetPlayback_t2_head s) = host_single_source s"
  by (simp add: stopPresetPlayback_t2_head_def stopRenderLoop_def Let_def prims split: option.splits)

lemma source_refused_kept:
  "source_refused (fst (stopPresetPlayback_t2_rest (td_finally (stopPresetPlayback_t2_head (run_stopMic_p0 s)))))
     = source_refused s"
proof -
  let ?y = "fst (stopPresetPlayback_t2_rest (td_finally (stopPresetPlayback_t2_head (run_stopMic_p0 s))))"
  have "audioElRef ?y = map_option (\<lambda>el. el\<lparr>onended := False, currentTime := 0\<rparr>) (audioElRef s)"
    by (simp add: stopPresetPlayback_t2_rest_def setMode_def td_finally_def
        stopPresetPlayback_t2_head_keeps_el audioElRef_run_stopMic_p0)
  moreover have "host_single_source ?y = host_single_source s"
    by (simp add: stopPresetPlayback_t2_rest_def setMode_def td_finally_def clearCanvas_def Let_def
        host_single_source_stopPresetPlayback_t2_head host_single_source_run_stopMic_p0
        split: option.splits)
  ultimately show ?thesis
    by (cases "audioElRef s") (simp_all add: source_refused_def)
qed

lemma no_playback_in_stopMic_p0:
  "filter is_playback (since s (run_stopMic_p0 s)) = []"
  by (cases "rafIdRef s"; cases "micSourceRef s"; cases "micStreamRef s"; cases "audioCtxRef s";
      cases "canvas s";
      simp add: run_stopMic_p0 stopMic_p0_rest_def setMode_def closeContext_def td_finally_def
        stopMic_p0_head_def stopRenderLoop_def clearCanvas_def Let_def prims since_def)

lemma removeAll_empty: "(removeAll x xs = []) = (set xs \<subseteq> {x})"
  by (induction xs) auto


subsection \<open>What the stops release\<close>

lemma run_stops_end:
  "snd (settled (stopMic_p0 s)) = []"
  "snd (settled (stopFilePlayback_p0 s)) = []"
  "snd (settled (stopPresetPlayback_t2 s)) = []"
  by (simp_all add: settled_stopMic_p0 settled_stopFilePlayback_p0 settled_stopPresetPlayback_t2
      stopMic_p0_rest_def stopFilePlayback_p0_rest_def stopPresetPlayback_t2_rest_def)

lemma stopMic_p0_released:
  "blanked (run_stopMic_p0 s)" "rafIdRef (run_stopMic_p0 s) = None" "audioCtxRef (run_stopMic_p0 s) = None"
  "analyserRef (run_stopMic_p0 s) = None" "dataArrayRef (run_stopMic_p0 s) = None"
  "micSourceRef (run_stopMic_p0 s) = None" "micStreamRef (run_stopMic_p0 s) = None"
  "fileSourceRef (run_stopMic_p0 s) = fileSourceRef s" "mediaElSourceRef (run_stopMic_p0 s) = mediaElSourceRef s"
  "\<not> isMicOn (run_stopMic_p0 s)" "mode (run_stopMic_p0 s) \<noteq> Mic"
  by (simp_all add: run_stopMic_p0 stopMic_p0_rest_def setMode_def blanked_canvas[where s = "clearCanvas x" for x])

lemma stopFilePlayback_p0_released:
  "blanked (run_stopFilePlayback_p0 s)" "rafIdRef (run_stopFilePlayback_p0 s) = None"
  "audioCtxRef (run_stopFilePlayback_p0 s) = None"
  "analyserRef (run_stopFilePlayback_p0 s) = None" "dataArrayRef (run_stopFilePlayback_p0 s) = None"
  "fileSourceRef (run_stopFilePlayback_p0 s) = None"
  "micSourceRef (run_stopFilePlayback_p0 s) = micSourceRef s" "micStreamRef (run_stopFilePlayback_p0 s) = micStreamRef s"
  "\<not> isFilePlaying (run_stopFilePlayback_p0 s)" "mode (run_stopFilePlayback_p0 s) \<noteq> File"
  "fileName (run_stopFilePlayback_p0 s) = None"
  by (simp_all add: run_stopFilePlayback_p0 stopFilePlayback_p0_rest_def setMode_def
      blanked_canvas[where s = "clearCanvas x" for x])

lemma stopPresetPlayback_t2_released:
  "blanked (run_stopPresetPlayback_t2 s)" "rafIdRef (run_stopPresetPlayback_t2 s) = None"
  "audioCtxRef (run_stopPresetPlayback_t2 s) = None"
  "analyserRef (run_stopPresetPlayback_t2 s) = None" "dataArrayRef (run_stopPresetPlayback_t2 s) = None"
  "mediaElSourceRef (run_stopPresetPlayback_t2 s) = None"
  "micSourceRef (run_stopPresetPlayback_t2 s) = micSourceRef s" "micStreamRef (run_stopPresetPlayback_t2 s) = micStreamRef s"
  "\<not> isFilePlaying (run_stopPresetPlayback_t2 s)" "mode (run_stopPresetPlayback_t2 s) \<noteq> File"
  "currentTrackId (run_stopPresetPlayback_t2 s) = None"
  by (simp_all add: run_stopPresetPlayback_t2 stopPresetPlayback_t2_rest_def setMode_def
      blanked_canvas[where s = "clearCanvas x" for x])

lemma clearCanvas_blanked: "blanked a \<Longrightarrow> forget (clearCanvas a) = forget a"
  by (cases a; cases "canvas a") (auto simp: blanked_def clearCanvas_def forget_def Let_def)

lemma forget_upd: "forget a = forget b \<Longrightarrow> forget (a\<lparr>trace := t\<rparr>) = forget b"
  by (simp add: forget_def)

lemma stopRenderLoop_idle: "rafIdRef a = None \<Longrightarrow> stopRenderLoop a = a"
  by (simp add: stopRenderLoop_def)

lemma closeContext_idle:
  "audioCtxRef a = None \<Longrightarrow> analyserRef a = None \<Longrightarrow> dataArrayRef a = None \<Longrightarrow> closeContext a = a"
  by (cases a) (simp add: closeContext_def td_finally_def)

lemma clearCanvas_blanked_eq: "blanked a \<Longrightarrow> clearCanvas a = a\<lparr>trace := trace (clearCanvas a)\<rparr>"
  by (cases a; cases "canvas a") (auto simp: blanked_def clearCanvas_def Let_def)

lemma stopMic_p0_again:
  assumes "blanked a" "rafIdRef a = None" "audioCtxRef a = None" "analyserRef a = None" "dataArrayRef a = None"
    "micSourceRef a = None" "micStreamRef a = None" "\<not> isMicOn a" "mode a \<noteq> Mic"
  shows "forget (run_stopMic_p0 a) = forget a"
proof -
  have h: "stopMic_p0_head a = a"
    using assms by (cases a) (simp add: stopMic_p0_head_def stopRenderLoop_def Let_def)
  have r: "run_stopMic_p0 a = (clearCanvas a)\<lparr>isMicOn := False, mode := mode a\<rparr>"
    using assms by (simp add: run_stopMic_p0 h closeContext_idle stopMic_p0_rest_def setMode_def)
  show ?thesis
    unfolding r using assms(8) by (subst clearCanvas_blanked_eq[OF assms(1)], cases a) (simp add: forget_def)
qed

lemma stopFilePlayback_p0_again:
  assumes "blanked a" "rafIdRef a = None" "audioCtxRef a = None" "analyserRef a = None" "dataArrayRef a = None"
    "fileSourceRef a = None" "\<not> isFilePlaying a" "mode a \<noteq> File" "fileName a = None"
  shows "forget (run_stopFilePlayback_p0 a) = forget a"
proof -
  have h: "stopFilePlayback_p0_head a = a"
    using assms by (cases a) (simp add: stopFilePlayback_p0_head_def stopRenderLoop_def Let_def)
  have r: "run_stopFilePlayback_p0 a = (clearCanvas a)\<lparr>isFilePlaying := False, mode := mode a, fileName := None\<rparr>"
    using assms by (simp add: run_stopFilePlayback_p0 h closeContext_idle stopFilePlayback_p0_rest_def setMode_def)
  show ?thesis
    unfolding r using assms(7,9) by (subst clearCanvas_blanked_eq[OF assms(1)], cases a) (simp add: forget_def)
qed

lemma stopPresetPlayback_t2_again:
  assumes "blanked a" "rafIdRef a = None" "audioCtxRef a = None" "analyserRef a = None" "dataArrayRef a = None"
    "mediaElSourceRef a = None" "\<not> isFilePlaying a" "mode a \<noteq> File" "currentTrackId a = None"
    "audioElRef a = map_option (\<lambda>el. el\<lparr>onended := False, currentTime := 0\<rparr>) e"
  shows "forget (run_stopPresetPlayback_t2 a) = forget a"
proof -
  have h: "forget (stopPresetPlayback_t2_head a) = forget a"
    using assms by (cases a; cases e) (simp_all add: stopPresetPlayback_t2_head_def stopRenderLoop_def Let_def prims forget_def)
  then obtain t where h': "stopPresetPlayback_t2_head a = a\<lparr>trace := t\<rparr>"
    by (cases a; cases "stopPresetPlayback_t2_head a") (simp add: forget_def)
  have b: "blanked (a\<lparr>trace := t\<rparr>)" using assms(1) by (simp add: blanked_def)
  have r: "run_stopPresetPlayback_t2 a =
      (clearCanvas (a\<lparr>trace := t\<rparr>))\<lparr>isFilePlaying := False, currentTrackId := None, mode := mode a\<rparr>"
    using assms
    by (simp add: run_stopPresetPlayback_t2 h' closeContext_idle stopPresetPlayback_t2_rest_def setMode_def)
  show ?thesis
    unfolding r using assms(7,9) by (subst clearCanvas_blanked_eq[OF b], cases a) (simp add: forget_def)
qed

lemma unmount_p0_idle:
  assumes "audioCtxRef s = None"
  shows "unmount_p0 s =
    ((fst (stopMic_p0_rest (td_finally (stopMic_p0_head
        (fst (stopFilePlayback_p0_rest (td_finally (stopFilePlayback_p0_head (stopRenderLoop s)))))))), []), [])"
  using assms
  by (simp add: unmount_p0_def stopFilePlayback_p0_def stopMic_p0_def teardownContext_def
      stopFilePlayback_p0_rest_def stopMic_p0_rest_def settle_def setMode_def td_finally_def)

lemma unmount_p0_busy:
  assumes "audioCtxRef s = Some c"
  shows "unmount_p0 s =
    ((fst (stopMic_p0_rest (td_finally (fst (stopFilePlayback_p0_rest (td_finally
        (emit (Close c) (emit (Close c) (emit (Suspend c) (stopMic_p0_head
          (emit (Suspend c) (stopFilePlayback_p0_head (stopRenderLoop s)))))))))))), []), [])"
  using assms
  by (simp add: unmount_p0_def stopFilePlayback_p0_def stopMic_p0_def teardownContext_def
      settle_def continue_def resume_done resume_wait resume_single td_suspended_def
      stopFilePlayback_p0_rest_def stopMic_p0_rest_def setMode_def td_finally_def emit_def
      del: resume.simps)

lemma unmount_p0_released:
  "snd (fst (unmount_p0 s)) = []" "snd (unmount_p0 s) = []"
  "blanked (fst (fst (unmount_p0 s)))"
  "rafIdRef (fst (fst (unmount_p0 s))) = None"
  "audioCtxRef (fst (fst (unmount_p0 s))) = None"
  "analyserRef (fst (fst (unmount_p0 s))) = None"
  "dataArrayRef (fst (fst (unmount_p0 s))) = None"
  "micSourceRef (fst (fst (unmount_p0 s))) = None"
  "micStreamRef (fst (fst (unmount_p0 s))) = None"
  "fileSourceRef (fst (fst (unmount_p0 s))) = None"
  by (cases "audioCtxRef s";
      simp add: unmount_p0_idle unmount_p0_busy stopFilePlayback_p0_rest_def stopMic_p0_rest_def setMode_def
        td_finally_def emit_def blanked_canvas[where s = "clearCanvas x" for x])+

text \<open>
  Claim C5, as the code has it (part\_000 and the second component of temp.tsx): after
  \<open>stopMic\<close> the canvas is blanked and no frame id, context, analyser, buffer, microphone
  source node or stream is referenced, the file (media element) source handle being left as
  it was; after \<open>stopFilePlayback\<close> (\<open>stopPresetPlayback\<close>) the canvas is blanked and no
  frame id, context, analyser, buffer or file (media element) source node is referenced,
  the microphone source and stream being left as they were; each stop ends, and run a
  second time changes nothing but the log of host calls; after the cleanup of the mount
  effect (render loop, file, microphone) nothing at all is referenced.
\<close>

theorem stops_release:
  "blanked (run_stopMic_p0 s) \<and> rafIdRef (run_stopMic_p0 s) = None \<and> audioCtxRef (run_stopMic_p0 s) = None
   \<and> analyserRef (run_stopMic_p0 s) = None \<and> dataArrayRef (run_stopMic_p0 s) = None
   \<and> micSourceRef (run_stopMic_p0 s) = None \<and> micStreamRef (run_stopMic_p0 s) = None
   \<and> fileSourceRef (run_stopMic_p0 s) = fileSourceRef s
   \<and> mediaElSourceRef (run_stopMic_p0 s) = mediaElSourceRef s
   \<and> snd (settled (stopMic_p0 s)) = []
   \<and> forget (run_stopMic_p0 (run_stopMic_p0 s)) = forget (run_stopMic_p0 s)
   \<and> blanked (run_stopFilePlayback_p0 s) \<and> rafIdRef (run_stopFilePlayback_p0 s) = None
   \<and> audioCtxRef (run_stopFilePlayback_p0 s) = None \<and> analyserRef (run_stopFilePlayback_p0 s) = None
   \<and> dataArrayRef (run_stopFilePlayback_p0 s) = None \<and> fileSourceRef (run_stopFilePlayback_p0 s) = None
   \<and> micSourceRef (run_stopFilePlayback_p0 s) = micSourceRef s
   \<and> micStreamRef (run_stopFilePlayback_p0 s) = micStreamRef s
   \<and> snd (settled (stopFilePlayback_p0 s)) = []
   \<and> forget (run_stopFilePlayback_p0 (run_stopFilePlayback_p0 s)) = forget (run_stopFilePlayback_p0 s)
   \<and> blanked (run_stopPresetPlayback_t2 s) \<and> rafIdRef (run_stopPresetPlayback_t2 s) = None
   \<and> audioCtxRef (run_stopPresetPlayback_t2 s) = None \<and> analyserRef (run_stopPresetPlayback_t2 s) = None
   \<and> dataArrayRef (run_stopPresetPlayback_t2 s) = None \<and> mediaElSourceRef (run_stopPresetPlayback_t2 s) = None
   \<and> micSourceRef (run_stopPresetPlayback_t2 s) = micSourceRef s
   \<and> micStreamRef (run_stopPresetPlayback_t2 s) = micStreamRef s
   \<and> snd (settled (stopPresetPlayback_t2 s)) = []
   \<and> forget (run_stopPresetPlayback_t2 (run_stopPresetPlayback_t2 s)) = forget (run_stopPresetPlayback_t2 s)
   \<and> snd (fst (unmount_p0 s)) = [] \<and> snd (unmount_p0 s) = []
   \<and> blanked (fst (fst (unmount_p0 s))) \<and> rafIdRef (fst (fst (unmount_p0 s))) = None
   \<and> audioCtxRef (fst (fst (unmount_p0 s))) = None \<and> analyserRef (fst (fst (unmount_p0 s))) = None
   \<and> dataArrayRef (fst (fst (unmount_p0 s))) = None \<and> micSourceRef (fst (fst (unmount_p0 s))) = None
   \<and> micStreamRef (fst (fst (unmount_p0 s))) = None \<and> fileSourceRef (fst (fst (unmount_p0 s))) = None"
proof -
  have 1: "forget (run_stopMic_p0 (run_stopMic_p0 s)) = forget (run_stopMic_p0 s)"
    by (rule stopMic_p0_again) (rule stopMic_p0_released)+
  have 2: "forget (run_stopFilePlayback_p0 (run_stopFilePlayback_p0 s)) = forget (run_stopFilePlayback_p0 s)"
    by (rule stopFilePlayback_p0_again) (rule stopFilePlayback_p0_released)+
  have el: "audioElRef (run_stopPresetPlayback_t2 s)
      = map_option (\<lambda>el. el\<lparr>onended := False, currentTime := 0\<rparr>) (audioElRef s)"
    by (simp add: run_stopPresetPlayback_t2 stopPresetPlayback_t2_rest_def setMode_def
        stopPresetPlayback_t2_head_keeps_el)
  have 3: "forget (run_stopPresetPlayback_t2 (run_stopPresetPlayback_t2 s)) = forget (run_stopPresetPlayback_t2 s)"
    by (rule stopPresetPlayback_t2_again[where e = "audioElRef s"])
       (rule stopPresetPlayback_t2_released el)+
  show ?thesis
    by (intro conjI stopMic_p0_released stopFilePlayback_p0_released stopPresetPlayback_t2_released
        run_stops_end unmount_p0_released 1 2 3)
qed

lemma draw_runs:
  assumes "canvas s \<noteq> None" "analyserRef s \<noteq> None" "dataArrayRef s \<noteq> None"
  shows "scheduled (draw s) = scheduled s @ [next_id s]" "rafIdRef (draw s) = Some (next_id s)"
    "next_id (draw s) = Suc (next_id s)" "dataArrayRef (draw s) \<noteq> None" "canvas (draw s) \<noteq> None"
  using assms by (auto simp: draw_def Let_def split: option.splits)

lemma wireMic_more:
  "edges (wireMic s) = edges s @ [(next_id s + 3, Node (next_id s + 2))]"
  "live_streams (wireMic s) = live_streams s @ [next_id s]"
  "scheduled (wireMic s) = scheduled s" "rafIdRef (wireMic s) = rafIdRef s"
  "ended_hooks (wireMic s) = ended_hooks s"
  "mediaElSourceRef (wireMic s) = mediaElSourceRef s"
  by (simp_all add: wireMic_def Let_def prims)

lemma run_startMic_p0_Resolved:
  "run_startMic_p0 Resolved s =
    (draw (clearCanvas (fitCanvas (wireMic (emit GetUserMedia ((run_stopFilePlayback_p0 s)\<lparr>error := None\<rparr>))))))
      \<lparr>mode := Mic, isMicOn := True, isFilePlaying := False, fileName := None\<rparr>"
  by (simp add: run_startMic_p0 startMic_p0_gum_def Let_def)

lemma run_stopFilePlayback_p0_more [simp]:
  "live_streams (run_stopFilePlayback_p0 s) = live_streams s"
  "ended_hooks (run_stopFilePlayback_p0 s) = ended_hooks s"
  "canvas (run_stopFilePlayback_p0 s) = None \<longleftrightarrow> canvas s = None"
  by (simp_all add: run_stopFilePlayback_p0 stopFilePlayback_p0_rest_def setMode_def)

lemma mounted_fields [simp]:
  "audioCtxRef mounted = None" "analyserRef mounted = None" "micSourceRef mounted = None"
  "micStreamRef mounted = None" "fileSourceRef mounted = None" "dataArrayRef mounted = None"
  "rafIdRef mounted = None" "canvas mounted \<noteq> None" "scheduled mounted = []" "edges mounted = []"
  "live_streams mounted = []" "ended_hooks mounted = []" "trace mounted = []" "next_id mounted = 0"
  "mode mounted = Idle" "audioElRef mounted = None" "mediaElSourceRef mounted = None" "\<not> busy mounted"
  by (simp_all add: mounted_def)

lemma mic_active_fields:
  "micStreamRef mic_active = Some 0" "micSourceRef mic_active = Some 3" "live_streams mic_active = [0]"
  "audioCtxRef mic_active = Some 1" "mode mic_active = Mic"
  by (simp_all add: mic_active_def run_startMic_p0_Resolved wireMic_fields wireMic_more emit_def)

text \<open>
  Claim C5 as stated fails: \<open>stopFilePlayback\<close> called while the microphone is active
  closes the context and leaves the microphone source node 3 and the stream 0 referenced,
  the tracks of the stream running.
\<close>

theorem stop_leaves_other_kind:
  "micStreamRef (run_stopFilePlayback_p0 mic_active) = Some 0
   \<and> micSourceRef (run_stopFilePlayback_p0 mic_active) = Some 3
   \<and> live_streams (run_stopFilePlayback_p0 mic_active) = [0]
   \<and> audioCtxRef (run_stopFilePlayback_p0 mic_active) = None"
  by (simp add: stopFilePlayback_p0_released mic_active_fields)

subsection \<open>Two calls of \<open>startMic\<close> in flight\<close>

lemma startMic_p0_idle:
  "audioCtxRef s = None \<Longrightarrow>
   startMic_p0 s = (emit GetUserMedia ((run_stopFilePlayback_p0 s)\<lparr>error := None\<rparr>), [StartMic_p0_gum])"
  by (simp add: startMic_p0_def stopFilePlayback_p0_def teardownContext_def stopFilePlayback_p0_rest_def
      startMic_p0_rest_def run_stopFilePlayback_p0 closeContext_def)

lemma startMic_p0_gum_Resolved:
  "startMic_p0_gum Resolved s =
    ((draw (clearCanvas (fitCanvas (wireMic s))))
       \<lparr>mode := Mic, isMicOn := True, isFilePlaying := False, fileName := None\<rparr>, [])"
  by (simp add: startMic_p0_gum_def Let_def)

lemma two_startMic_p0_mounted:
  "two_startMic_p0 mounted =
    (draw (clearCanvas (fitCanvas (wireMic
      ((draw (clearCanvas (fitCanvas (wireMic
         (emit GetUserMedia ((run_stopFilePlayback_p0
            (emit GetUserMedia ((run_stopFilePlayback_p0 mounted)\<lparr>error := None\<rparr>)))\<lparr>error := None\<rparr>))))))
       \<lparr>mode := Mic, isMicOn := True, isFilePlaying := False, fileName := None\<rparr>)))))
    \<lparr>mode := Mic, isMicOn := True, isFilePlaying := False, fileName := None\<rparr>"
proof -
  let ?s1 = "emit GetUserMedia ((run_stopFilePlayback_p0 mounted)\<lparr>error := None\<rparr>)"
  have 1: "startMic_p0 mounted = (?s1, [StartMic_p0_gum])"
    by (simp add: startMic_p0_idle)
  have c: "audioCtxRef ?s1 = None"
    by (simp add: emit_def stopFilePlayback_p0_released)
  show ?thesis
    by (simp add: two_startMic_p0_def 1 startMic_p0_idle[OF c] continue_def resume_single
        startMic_p0_gum_Resolved del: resume.simps)
qed

lemma mounted_t1_fields:
  "audioCtxRef mounted_t1 = Some 0"
  "analyserRef mounted_t1 = Some \<lparr>an_id = 1, fftSize = 256, smoothingTimeConstant = 4 / 5\<rparr>"
  "audioElRef mounted_t1 =
     Some \<lparr>src = [], currentTime = 0, muted = True, onended = False, has_source = True\<rparr>"
  "mediaElSourceRef mounted_t1 = Some 2" "dataArrayRef mounted_t1 = Some (3, replicate 128 0)"
  "next_id mounted_t1 = 4" "micSourceRef mounted_t1 = None" "rafIdRef mounted_t1 = None"
  "scheduled mounted_t1 = []" "edges mounted_t1 = []" "canvas mounted_t1 \<noteq> None" "\<not> busy mounted_t1"
  "trace mounted_t1 = [NewAudioContext 0]" "live_streams mounted_t1 = []" "mode mounted_t1 = Idle"
  by (simp_all add: mounted_t1_def init_t1_def Let_def prims frequencyBinCount_def)

lemma disconnectAll_keeps [simp]:
  "audioCtxRef (disconnectAll s) = audioCtxRef s" "analyserRef (disconnectAll s) = analyserRef s"
  "micSourceRef (disconnectAll s) = micSourceRef s" "mediaElSourceRef (disconnectAll s) = mediaElSourceRef s"
  "audioElRef (disconnectAll s) = audioElRef s" "dataArrayRef (disconnectAll s) = dataArrayRef s"
  "rafIdRef (disconnectAll s) = rafIdRef s" "canvas (disconnectAll s) = canvas s"
  "scheduled (disconnectAll s) = scheduled s" "next_id (disconnectAll s) = next_id s"
  "busy (disconnectAll s) = busy s" "live_streams (disconnectAll s) = live_streams s"
  "micStreamRef (disconnectAll s) = micStreamRef s" "mode (disconnectAll s) = mode s"
  by (simp_all add: disconnectAll_def Let_def prims split: option.splits)

lemma disconnectAll_edges:
  "edges (disconnectAll s) =
     filter (\<lambda>e. Some (fst e) \<noteq> micSourceRef s \<and> Some (fst e) \<noteq> mediaElSourceRef s
                 \<and> Some (fst e) \<noteq> map_option an_id (analyserRef s)) (edges s)"
  by (auto simp: disconnectAll_def Let_def prims split: option.splits intro: filter_cong)

lemma connectForMic_keeps [simp]:
  "audioCtxRef (connectForMic s) = audioCtxRef s" "analyserRef (connectForMic s) = analyserRef s"
  "micSourceRef (connectForMic s) = micSourceRef s" "mediaElSourceRef (connectForMic s) = mediaElSourceRef s"
  "audioElRef (connectForMic s) = audioElRef s" "dataArrayRef (connectForMic s) = dataArrayRef s"
  "rafIdRef (connectForMic s) = rafIdRef s" "canvas (connectForMic s) = canvas s"
  "scheduled (connectForMic s) = scheduled s" "next_id (connectForMic s) = next_id s"
  "busy (connectForMic s) = busy s" "live_streams (connectForMic s) = live_streams s"
  "micStreamRef (connectForMic s) = micStreamRef s" "mode (connectForMic s) = mode s"
  by (simp_all add: connectForMic_def Let_def prims split: option.splits)

lemma stopPresetPlayback_t1_fields:
  assumes "audioElRef s = Some el"
  shows "audioCtxRef (stopPresetPlayback_t1 s) = audioCtxRef s"
    "analyserRef (stopPresetPlayback_t1 s) = analyserRef s"
    "micSourceRef (stopPresetPlayback_t1 s) = micSourceRef s"
    "mediaElSourceRef (stopPresetPlayback_t1 s) = mediaElSourceRef s"
    "audioElRef (stopPresetPlayback_t1 s) = Some (el\<lparr>onended := False, currentTime := 0\<rparr>)"
    "dataArrayRef (stopPresetPlayback_t1 s) = dataArrayRef s"
    "rafIdRef (stopPresetPlayback_t1 s) = None"
    "canvas (stopPresetPlayback_t1 s) = None \<longleftrightarrow> canvas s = None"
    "scheduled (stopPresetPlayback_t1 s) = scheduled (stopRenderLoop s)"
    "next_id (stopPresetPlayback_t1 s) = next_id s"
    "busy (stopPresetPlayback_t1 s) = busy s"
    "live_streams (stopPresetPlayback_t1 s) = live_streams s"
    "edges (stopPresetPlayback_t1 s) =
       filter (\<lambda>e. Some (fst e) \<noteq> micSourceRef s \<and> Some (fst e) \<noteq> mediaElSourceRef s
                 \<and> Some (fst e) \<noteq> map_option an_id (analyserRef s)) (edges s)"
  using assms
  by (simp_all add: stopPresetPlayback_t1_def Let_def setMode_def emit_def disconnectAll_edges)

lemma emit_keeps [simp]:
  "audioCtxRef (emit e s) = audioCtxRef s"
  "analyserRef (emit e s) = analyserRef s"
  "micSourceRef (emit e s) = micSourceRef s"
  "micStreamRef (emit e s) = micStreamRef s"
  "fileSourceRef (emit e s) = fileSourceRef s"
  "audioElRef (emit e s) = audioElRef s"
  "mediaElSourceRef (emit e s) = mediaElSourceRef s"
  "dataArrayRef (emit e s) = dataArrayRef s"
  "rafIdRef (emit e s) = rafIdRef s"
  "mode (emit e s) = mode s"
  "isMicOn (emit e s) = isMicOn s"
  "isFilePlaying (emit e s) = isFilePlaying s"
  "fileName (emit e s) = fileName s"
  "currentTrackId (emit e s) = currentTrackId s"
  "busy (emit e s) = busy s"
  "error (emit e s) = error s"
  "canvas (emit e s) = canvas s"
  "rect_width (emit e s) = rect_width s"
  "rect_height (emit e s) = rect_height s"
  "devicePixelRatio (emit e s) = devicePixelRatio s"
  "spectrum (emit e s) = spectrum s"
  "scheduled (emit e s) = scheduled s"
  "edges (emit e s) = edges s"
  "live_streams (emit e s) = live_streams s"
  "ended_hooks (emit e s) = ended_hooks s"
  "next_id (emit e s) = next_id s"
  by (simp_all add: emit_def)

lemma draw_general:
  "scheduled (draw s) = scheduled s @
     (if canvas s \<noteq> None \<and> analyserRef s \<noteq> None \<and> dataArrayRef s \<noteq> None then [next_id s] else [])"
  "rafIdRef (draw s) =
     (if canvas s \<noteq> None \<and> analyserRef s \<noteq> None \<and> dataArrayRef s \<noteq> None then Some (next_id s) else rafIdRef s)"
  "next_id (draw s) =
     (if canvas s \<noteq> None \<and> analyserRef s \<noteq> None \<and> dataArrayRef s \<noteq> None then Suc (next_id s) else next_id s)"
  "dataArrayRef (draw s) = None \<longleftrightarrow> dataArrayRef s = None"
  "canvas (draw s) = None \<longleftrightarrow> canvas s = None"
  by (auto simp: draw_def Let_def split: option.splits)

subsection \<open>The end-of-track hook\<close>

lemma stopFilePlayback_p0_calls:
  "trace (run_stopFilePlayback_p0 s) = trace s
     @ (case rafIdRef s of None \<Rightarrow> [] | Some r \<Rightarrow> [CancelFrame r])
     @ (case fileSourceRef s of None \<Rightarrow> [] | Some n \<Rightarrow> [SourceStop n, Disconnect n])
     @ (case audioCtxRef s of None \<Rightarrow> [] | Some c \<Rightarrow> [Suspend c, Close c])
     @ (case canvas s of None \<Rightarrow> []
        | Some c \<Rightarrow> [ClearRect 0 0 (of_int (width c)) (of_int (height c)),
                    FillRect Black 0 0 (of_int (width c)) (of_int (height c))])"
  by (cases "rafIdRef s"; cases "fileSourceRef s"; cases "audioCtxRef s"; cases "canvas s";
      simp add: run_stopFilePlayback_p0 stopFilePlayback_p0_rest_def setMode_def closeContext_def
        td_finally_def stopFilePlayback_p0_head_def stopRenderLoop_def clearCanvas_def Let_def
        emit_def disconnect_def)

lemma stopFilePlayback_p0_keeps_hook:
  "ended_hooks (run_stopFilePlayback_p0 s) = ended_hooks s"
  "DetachOnended \<notin> set (since s (run_stopFilePlayback_p0 s))"
  "fileSourceRef s = Some n \<Longrightarrow> SourceStop n \<in> set (since s (run_stopFilePlayback_p0 s))"
  by (simp_all add: since_def stopFilePlayback_p0_calls split: option.splits)

lemma stopMic_p0_idle:
  assumes "rafIdRef s = None" "micSourceRef s = None" "micStreamRef s = None" "audioCtxRef s = None"
  shows "run_stopMic_p0 s = (clearCanvas (td_finally s))\<lparr>isMicOn := False, mode := (if mode s = Mic then Idle else mode s)\<rparr>"
proof -
  have "stopMic_p0_head s = s"
    using assms by (cases s) (simp add: stopMic_p0_head_def stopRenderLoop_def Let_def)
  then show ?thesis
    using assms by (simp add: run_stopMic_p0 closeContext_def stopMic_p0_rest_def setMode_def td_finally_def)
qed

lemma run_startFilePlayback_p0_Resolved:
  "run_startFilePlayback_p0 name Resolved Resolved s =
     fst (startFilePlayback_p0_decode name (next_id s)
            \<lparr>an_id = Suc (next_id s), fftSize = 256, smoothingTimeConstant = 4 / 5\<rparr> Resolved
            ((run_stopMic_p0 s)
               \<lparr>error := None, audioCtxRef := Some (next_id s), next_id := Suc (Suc (next_id s)),
                  analyserRef := Some \<lparr>an_id = Suc (next_id s), fftSize = 256, smoothingTimeConstant = 4 / 5\<rparr>,
                  trace := trace (run_stopMic_p0 s) @
                    [ArrayBuffer, NewAudioContext (next_id s), DecodeAudioData (next_id s)]\<rparr>))"
  by (simp add: run_startFilePlayback_p0_def settled_startFilePlayback_p0 startFilePlayback_p0_rest_def
      continue_def resume_single startFilePlayback_p0_buf_def Let_def newAudioContext_def createAnalyser_def
      bump_def emit_def del: resume.simps)

lemma connect_keeps [simp]:
  "audioCtxRef (connect n x s) = audioCtxRef s" "analyserRef (connect n x s) = analyserRef s"
  "micSourceRef (connect n x s) = micSourceRef s" "micStreamRef (connect n x s) = micStreamRef s"
  "fileSourceRef (connect n x s) = fileSourceRef s" "dataArrayRef (connect n x s) = dataArrayRef s"
  "rafIdRef (connect n x s) = rafIdRef s" "canvas (connect n x s) = canvas s"
  "scheduled (connect n x s) = scheduled s" "next_id (connect n x s) = next_id s"
  "live_streams (connect n x s) = live_streams s" "ended_hooks (connect n x s) = ended_hooks s"
  "mode (connect n x s) = mode s" "isMicOn (connect n x s) = isMicOn s"
  "edges (connect n x s) = edges s @ [(n, x)]"
  by (simp_all add: connect_def)

lemma mounted_stopMic:
  "run_stopMic_p0 mounted = (clearCanvas (td_finally mounted))\<lparr>isMicOn := False, mode := Idle\<rparr>"
  by (simp add: stopMic_p0_idle)

lemma file_active_fields:
  "fileSourceRef file_active = Some 2" "ended_hooks file_active = [2]" "audioCtxRef file_active = Some 0"
  "rafIdRef file_active = Some 4" "scheduled file_active = [4]" "next_id file_active = 5"
  "mode file_active = File" "canvas file_active \<noteq> None" "live_streams file_active = []"
  "edges file_active = [(2, Node 1), (1, Destination 0)]"
  by (simp_all add: file_active_def run_startFilePlayback_p0_Resolved startFilePlayback_p0_decode_def
      Let_def fresh_def bump_def newUint8Array_def mounted_stopMic draw_general td_finally_def)

text \<open>
  Claim C4 on the code (part\_000): \<open>stopFilePlayback\<close> stops the source node 2 and never
  clears its \<open>onended\<close>: the handler is still attached after the manual stop. If the host
  then delivers \<open>ended\<close> for the stopped node after \<open>startMic\<close> has built the microphone
  pipeline, the handler cancels the render loop and closes the microphone's context while
  the mode stays mic and the stream keeps running.
\<close>

theorem hook_outlives_manual_stop:
  "ended_hooks (run_stopFilePlayback_p0 file_active) = [2]
   \<and> fileSourceRef (run_stopFilePlayback_p0 file_active) = None
   \<and> SourceStop 2 \<in> set (since file_active (run_stopFilePlayback_p0 file_active))
   \<and> DetachOnended \<notin> set (since file_active (run_stopFilePlayback_p0 file_active))
   \<and> mode (run_startMic_p0 Resolved (run_stopFilePlayback_p0 file_active)) = Mic
   \<and> audioCtxRef (run_startMic_p0 Resolved (run_stopFilePlayback_p0 file_active)) = Some 6
   \<and> scheduled (run_startMic_p0 Resolved (run_stopFilePlayback_p0 file_active)) = [10]
   \<and> mode (run_onended_p0 2 (run_startMic_p0 Resolved (run_stopFilePlayback_p0 file_active))) = Mic
   \<and> isMicOn (run_onended_p0 2 (run_startMic_p0 Resolved (run_stopFilePlayback_p0 file_active)))
   \<and> audioCtxRef (run_onended_p0 2 (run_startMic_p0 Resolved (run_stopFilePlayback_p0 file_active))) = None
   \<and> analyserRef (run_onended_p0 2 (run_startMic_p0 Resolved (run_stopFilePlayback_p0 file_active))) = None
   \<and> scheduled (run_onended_p0 2 (run_startMic_p0 Resolved (run_stopFilePlayback_p0 file_active))) = []
   \<and> live_streams (run_onended_p0 2 (run_startMic_p0 Resolved (run_stopFilePlayback_p0 file_active))) = [5]"
proof -
  note fa = file_active_fields
  let ?t = "run_stopFilePlayback_p0 file_active"
  have t: "ended_hooks ?t = [2]" "fileSourceRef ?t = None" "next_id ?t = 5" "canvas ?t \<noteq> None"
    "live_streams ?t = []" "rafIdRef ?t = None" "audioCtxRef ?t = None"
    by (simp_all add: stopFilePlayback_p0_keeps_hook stopFilePlayback_p0_released fa)
  have ts: "scheduled ?t = []"
    by (simp add: run_stopFilePlayback_p0 stopFilePlayback_p0_rest_def setMode_def
        stopFilePlayback_p0_head_def stopRenderLoop_def fa emit_def disconnect_def split: option.splits)
  have ev: "SourceStop 2 \<in> set (since file_active ?t)" "DetachOnended \<notin> set (since file_active ?t)"
    by (simp_all add: stopFilePlayback_p0_keeps_hook fa)
  let ?u = "run_startMic_p0 Resolved ?t"
  have tt: "run_stopFilePlayback_p0 ?t = (clearCanvas ?t)\<lparr>isFilePlaying := False,
      mode := (if mode ?t = File then Idle else mode ?t), fileName := None\<rparr>"
  proof -
    have "stopFilePlayback_p0_head ?t = ?t"
      using t by (cases ?t) (simp add: stopFilePlayback_p0_head_def stopRenderLoop_def Let_def)
    moreover have "closeContext ?t = ?t"
      by (rule closeContext_idle) (rule stopFilePlayback_p0_released)+
    ultimately show ?thesis
      by (simp add: run_stopFilePlayback_p0 stopFilePlayback_p0_rest_def setMode_def)
  qed
  have u: "mode ?u = Mic" "isMicOn ?u" "audioCtxRef ?u = Some 6" "scheduled ?u = [10]" "rafIdRef ?u = Some 10"
    "ended_hooks ?u = [2]" "live_streams ?u = [5]"
    by (simp_all add: run_startMic_p0_Resolved tt wireMic_fields wireMic_more draw_general t ts fa)
  let ?v = "run_onended_p0 2 ?u"
  have v: "?v = fst (onended_p0_rest (closeContext (stopRenderLoop ?u)))"
    by (simp add: run_onended_p0_def settled_onended_p0 u)
  have sr: "scheduled (stopRenderLoop ?u) = []"
    by (simp add: stopRenderLoop_def u emit_def)
  have vf: "mode ?v = Mic" "isMicOn ?v" "audioCtxRef ?v = None" "analyserRef ?v = None"
    "scheduled ?v = []" "live_streams ?v = [5]"
    unfolding v
    by (simp_all add: onended_p0_rest_def setMode_def u sr)
  show ?thesis
    using t ev u vf by simp
qed

lemma grows_disconnectAll [simp]: "prefix t (trace s) \<Longrightarrow> prefix t (trace (disconnectAll s))"
  by (simp add: disconnectAll_def Let_def split: option.splits)

text \<open>The sibling path: \<open>stopPresetPlayback\<close> of the first component of temp.tsx clears
  \<open>onended\<close> before it pauses the element.\<close>

lemma preset_stop_detaches_first:
  assumes "audioElRef s = Some el"
  shows "precedes DetachOnended (\<lambda>e. e = Pause) (since s (stopPresetPlayback_t1 s))"
    and "map_option onended (audioElRef (stopPresetPlayback_t1 s)) = Some False"
proof -
  let ?y = "emit Pause (emit DetachOnended ((stopRenderLoop s)\<lparr>audioElRef := Some (el\<lparr>onended := False\<rparr>)\<rparr>))"
  have a: "prefix (trace s) (trace ?y)" by simp
  have b: "prefix (trace ?y) (trace (stopPresetPlayback_t1 s))"
    using assms by (simp add: stopPresetPlayback_t1_def Let_def setMode_def)
  have c: "precedes DetachOnended (\<lambda>e. e = Pause) (since s ?y @ ys)" for ys
    by (cases "rafIdRef s"; simp add: since_def stopRenderLoop_def emit_def)
  show "precedes DetachOnended (\<lambda>e. e = Pause) (since s (stopPresetPlayback_t1 s))"
    using since_trans[OF a b] c by simp
  show "map_option onended (audioElRef (stopPresetPlayback_t1 s)) = Some False"
    using assms by (simp add: stopPresetPlayback_t1_fields)
qed

subsection \<open>The busy flag\<close>

lemma stopFilePlayback_p0_idle:
  assumes "rafIdRef s = None" "fileSourceRef s = None" "audioCtxRef s = None"
  shows "run_stopFilePlayback_p0 s =
    (clearCanvas (td_finally s))\<lparr>isFilePlaying := False, mode := (if mode s = File then Idle else mode s),
       fileName := None\<rparr>"
proof -
  have "stopFilePlayback_p0_head s = s"
    using assms by (cases s) (simp add: stopFilePlayback_p0_head_def stopRenderLoop_def Let_def)
  then show ?thesis
    using assms
    by (simp add: run_stopFilePlayback_p0 closeContext_def stopFilePlayback_p0_rest_def setMode_def
        td_finally_def)
qed

text \<open>
  Claim C2 on the code: part\_000 has no busy flag and disables no button. \<open>startMic\<close>,
  called by the mount effect, waits for \<open>getUserMedia\<close>; a second \<open>startMic\<close> called then
  (the button \<open>Use Mic\<close> is shown while the mode is not mic) is neither ignored nor
  deferred: it blanks the canvas, asks the host for a second stream and waits as well,
  before the first call goes on.
\<close>

theorem second_startMic_not_ignored:
  "snd (startMic_p0 mounted) = [StartMic_p0_gum]
   \<and> snd (startMic_p0 (fst (startMic_p0 mounted))) = [StartMic_p0_gum]
   \<and> since (fst (startMic_p0 mounted)) (fst (startMic_p0 (fst (startMic_p0 mounted))))
       = [ClearRect 0 0 300 150, FillRect Black 0 0 300 150, GetUserMedia]
   \<and> filter (\<lambda>e. e = GetUserMedia) (trace (fst (startMic_p0 (fst (startMic_p0 mounted)))))
       = [GetUserMedia, GetUserMedia]"
proof -
  let ?c = "\<lparr>width = 300, height = 150, fills = [(Black, 0, 0, 300, 150)]\<rparr>"
  let ?r1 = "run_stopFilePlayback_p0 mounted"
  let ?s1 = "emit GetUserMedia (?r1\<lparr>error := None\<rparr>)"
  have 1: "startMic_p0 mounted = (?s1, [StartMic_p0_gum])"
    by (simp add: startMic_p0_idle)
  have r1: "canvas ?r1 = Some ?c"
    "trace ?r1 = [ClearRect 0 0 300 150, FillRect Black 0 0 300 150]"
    "rafIdRef ?r1 = None" "fileSourceRef ?r1 = None" "audioCtxRef ?r1 = None"
    by (simp_all add: stopFilePlayback_p0_idle clearCanvas_def td_finally_def mounted_def)
  have c: "audioCtxRef ?s1 = None"
    by (simp add: r1)
  let ?r2 = "run_stopFilePlayback_p0 ?s1"
  let ?s2 = "emit GetUserMedia (?r2\<lparr>error := None\<rparr>)"
  have 2: "startMic_p0 ?s1 = (?s2, [StartMic_p0_gum])"
    by (rule startMic_p0_idle[OF c])
  have s1: "rafIdRef ?s1 = None" "fileSourceRef ?s1 = None" "canvas ?s1 = Some ?c"
    "trace ?s1 = [ClearRect 0 0 300 150, FillRect Black 0 0 300 150, GetUserMedia]"
    by (simp_all add: r1 emit_def)
  have r2: "trace ?r2 = trace ?s1 @ [ClearRect 0 0 300 150, FillRect Black 0 0 300 150]"
    unfolding stopFilePlayback_p0_idle[OF s1(1,2) c]
    by (simp add: clearCanvas_def td_finally_def r1 emit_def)
  have e: "trace (emit x (y\<lparr>error := None\<rparr>)) = trace y @ [x]" for x y
    by (simp add: emit_def)
  have t2: "trace ?s2 = trace ?s1 @ [ClearRect 0 0 300 150, FillRect Black 0 0 300 150, GetUserMedia]"
    unfolding e[of GetUserMedia ?r2] r2 by simp
  have 3: "since ?s1 ?s2 = [ClearRect 0 0 300 150, FillRect Black 0 0 300 150, GetUserMedia]"
    unfolding since_def t2 by simp
  have 4: "filter (\<lambda>e. e = GetUserMedia) (trace ?s2) = [GetUserMedia, GetUserMedia]"
    unfolding t2 s1(4) by simp
  show ?thesis
    unfolding 1 fst_conv snd_conv 2 using 3 4 by simp
qed

lemma busy_kept [simp]:
  "busy (stopMic_t1 s) = busy s" "busy (stopPresetPlayback_t1 s) = busy s"
  "busy (connectForFile s) = busy s"
  by (simp_all add: stopMic_t1_def stopPresetPlayback_t1_def connectForFile_def Let_def prims
      split: option.splits)

text \<open>
  The sibling: in the first component of temp.tsx \<open>startMic\<close> and \<open>startPreset\<close>, the two
  sequences that wait for the host, raise \<open>busy\<close> before they wait and lower it when they
  end, whatever the outcome. A render that reads the raised flag disables every button and
  hands \<open>startPreset\<close> a \<open>busy\<close> that makes it return at once: a click then, and a call of
  that \<open>startPreset\<close>, change nothing and start nothing.
\<close>

lemma busy_guards_starts:
  "(audioCtxRef s \<noteq> None \<longrightarrow> busy (fst (startMic_t1 s)) \<and> snd (startMic_t1 s) = [StartMic_t1_gum])
   \<and> \<not> busy (fst (startMic_t1_gum out x)) \<and> snd (startMic_t1_gum out x) = []
   \<and> (audioCtxRef s \<noteq> None \<and> audioElRef s \<noteq> None \<longrightarrow>
        busy (fst (startPreset_t1 False tr s)) \<and> snd (startPreset_t1 False tr s) = [StartPreset_t1_play tr])
   \<and> \<not> busy (fst (startPreset_t1_play tr out x)) \<and> snd (startPreset_t1_play tr out x) = []
   \<and> v_busy (render_t1 x) = busy x
   \<and> startPreset_t1 True tr x = (x, [])
   \<and> (v_busy v \<longrightarrow> click_mic_t1 v x = (x, []) \<and> click_stopTrack_t1 v x = (x, [])
         \<and> click_track_t1 v tr x = (x, []))"
proof -
  have 1: "busy (fst (startMic_t1 s)) \<and> snd (startMic_t1 s) = [StartMic_t1_gum]"
    if "audioCtxRef s \<noteq> None"
    using that by (auto simp: startMic_t1_def Let_def)
  have 2: "\<not> busy (fst (startMic_t1_gum out x))" "snd (startMic_t1_gum out x) = []"
    by (simp_all add: startMic_t1_gum_def startMic_t1_catch_def Let_def prims
        split: outcome.splits option.splits)
  have 3: "busy (fst (startPreset_t1 False tr s)) \<and> snd (startPreset_t1 False tr s) = [StartPreset_t1_play tr]"
    if "audioCtxRef s \<noteq> None \<and> audioElRef s \<noteq> None"
    using that by (auto simp: startPreset_t1_def Let_def)
  have 4: "\<not> busy (fst (startPreset_t1_play tr out x))" "snd (startPreset_t1_play tr out x) = []"
    by (simp_all add: startPreset_t1_play_def startPreset_t1_catch_def Let_def
        split: outcome.splits option.splits)
  have 5: "v_busy (render_t1 x) = busy x"
    by (simp add: render_t1_def)
  have 6: "startPreset_t1 True tr x = (x, [])"
    by (simp add: startPreset_t1_def split: option.splits)
  have 7: "click_mic_t1 v x = (x, []) \<and> click_stopTrack_t1 v x = (x, []) \<and> click_track_t1 v tr x = (x, [])"
    if "v_busy v"
    using that by (simp add: click_mic_t1_def click_stopTrack_t1_def click_track_t1_def)
  show ?thesis using 1 2 3 4 5 6 7 by blast
qed

text \<open>After the body of the mount effect of that component: while \<open>startMic\<close> waits for
  \<open>getUserMedia\<close> and the component has rendered, the buttons do nothing; the flag is
  lowered when the request is settled.\<close>

lemma busy_guards_starts_mounted:
  "busy (fst (startMic_t1 mounted_t1))
   \<and> snd (startMic_t1 mounted_t1) = [StartMic_t1_gum]
   \<and> click_mic_t1 (render_t1 (fst (startMic_t1 mounted_t1))) (fst (startMic_t1 mounted_t1))
       = (fst (startMic_t1 mounted_t1), [])
   \<and> click_track_t1 (render_t1 (fst (startMic_t1 mounted_t1)))
         \<lparr>track_id = ''t1'', url = ''/audio/cascade-breathe.mp3''\<rparr> (fst (startMic_t1 mounted_t1))
       = (fst (startMic_t1 mounted_t1), [])
   \<and> \<not> busy (fst (startMic_t1_gum Resolved (fst (startMic_t1 mounted_t1))))
   \<and> \<not> busy (fst (startMic_t1_gum (Rejected None) (fst (startMic_t1 mounted_t1))))"
  using busy_guards_starts[of mounted_t1 Resolved "fst (startMic_t1 mounted_t1)"
      "\<lparr>track_id = ''t1'', url = ''/audio/cascade-breathe.mp3''\<rparr>"
      "render_t1 (fst (startMic_t1 mounted_t1))"]
    busy_guards_starts[of mounted_t1 "Rejected None" "fst (startMic_t1 mounted_t1)"
      "\<lparr>track_id = ''t1'', url = ''/audio/cascade-breathe.mp3''\<rparr>"
      "render_t1 (fst (startMic_t1 mounted_t1))"]
  by (simp add: mounted_t1_fields)

subsection \<open>The mode field\<close>

text \<open>
  Claim C10: \<open>stopMic\<close> sets the mode to idle only when it is mic, and
  \<open>stopPresetPlayback\<close> and \<open>stopFilePlayback\<close> only when it is file; in every other mode
  they leave it as it is. (In the first component of temp.tsx both return at once, the
  mode untouched, when the context or the audio element is missing.)
\<close>

theorem stop_mode:
  "mode (stopMic_t1 s) = (if audioCtxRef s \<noteq> None \<and> mode s = Mic then Idle else mode s)
   \<and> mode (stopPresetPlayback_t1 s) = (if audioElRef s \<noteq> None \<and> mode s = File then Idle else mode s)
   \<and> mode (run_stopFilePlayback_p0 s) = (if mode s = File then Idle else mode s)
   \<and> mode (run_stopMic_p0 s) = (if mode s = Mic then Idle else mode s)
   \<and> mode (run_stopPresetPlayback_t2 s) = (if mode s = File then Idle else mode s)"
proof -
  have 1: "mode (stopMic_t1 s) = (if audioCtxRef s \<noteq> None \<and> mode s = Mic then Idle else mode s)"
    by (simp add: stopMic_t1_def prims Let_def split: option.splits)
  have 2: "mode (stopPresetPlayback_t1 s) = (if audioElRef s \<noteq> None \<and> mode s = File then Idle else mode s)"
    by (simp add: stopPresetPlayback_t1_def setMode_def Let_def split: option.splits)
  have 3: "mode (run_stopFilePlayback_p0 s) = (if mode s = File then Idle else mode s)"
    by (simp add: run_stopFilePlayback_p0 stopFilePlayback_p0_rest_def setMode_def)
  have 4: "mode (run_stopMic_p0 s) = (if mode s = Mic then Idle else mode s)"
    by (simp add: run_stopMic_p0 stopMic_p0_rest_def setMode_def)
  have 5: "mode (run_stopPresetPlayback_t2 s) = (if mode s = File then Idle else mode s)"
    by (simp add: run_stopPresetPlayback_t2 stopPresetPlayback_t2_rest_def setMode_def)
  show ?thesis using 1 2 3 4 5 by blast
qed

subsection \<open>The claims at concrete states\<close>

text \<open>Claim C6 at the mounted component, with a rejection that carries a message and with
  one that carries none.\<close>

theorem startMic_failure_witness:
  "mode (run_startMic_p0 (Rejected (Some ''Permission denied'')) mounted) = Idle
    \<and> \<not> isMicOn (run_startMic_p0 (Rejected (Some ''Permission denied'')) mounted)
    \<and> blanked (run_startMic_p0 (Rejected (Some ''Permission denied'')) mounted)
    \<and> error (run_startMic_p0 (Rejected (Some ''Permission denied'')) mounted) = Some ''Permission denied''
    \<and> snd (continue (Rejected (Some ''Permission denied'')) (settled (startMic_p0 mounted))) = []
    \<and> \<not> isMicOn (run_startMic_av (Rejected None) mounted)
    \<and> error (run_startMic_av (Rejected None) mounted) = Some ''Microphone permission denied or unavailable.''"
  using startMic_failure[of "Some ''Permission denied''" mounted] startMic_failure[of None mounted]
  by (simp add: message_def)

lemma next_id_mic_active: "next_id mic_active = 6"
  by (simp add: mic_active_def run_startMic_p0_Resolved wireMic_fields draw_general)

lemma source_accepted_mic_active: "\<not> source_refused mic_active"
  by (simp add: source_refused_def mic_active_def run_startMic_p0_Resolved wireMic_def Let_def prims
      run_stopFilePlayback_p0 stopFilePlayback_p0_rest_def)


text \<open>Claim C5 at the state where the microphone is active.\<close>

theorem stops_release_witness:
  "micStreamRef (run_stopMic_p0 mic_active) = None \<and> audioCtxRef (run_stopMic_p0 mic_active) = None
   \<and> blanked (run_stopMic_p0 mic_active)
   \<and> forget (run_stopMic_p0 (run_stopMic_p0 mic_active)) = forget (run_stopMic_p0 mic_active)"
  using stops_release[of mic_active] by simp

lemma run_startMic_av_Resolved:
  "run_startMic_av Resolved s =
     (draw (clearCanvas (fitCanvas (wireMic (emit GetUserMedia (s\<lparr>error := None\<rparr>))))))\<lparr>isMicOn := True\<rparr>"
  by (simp add: run_startMic_av_def startMic_av_def continue_def resume_single startMic_av_gum_def Let_def
      del: resume.simps)

lemma two_startMic_av:
  "scheduled (run_startMic_av Resolved (run_startMic_av Resolved mounted)) = [5, 11]"
  by (simp add: run_startMic_av_Resolved wireMic_fields wireMic_more draw_general)

text \<open>
  Claim C1 on the code: in part\_000, \<open>startMic\<close> called a second time while the first
  call waits for \<open>getUserMedia\<close> leaves, once both requests resolve, two frame callbacks
  scheduled (5 and 11, only 11 held in \<open>rafIdRef\<close>), two microphone source nodes connected
  (3 into analyser 2, 9 into analyser 8) and two capture streams running (0 and 6, only 6
  referenced). In AudioVisualizer.tsx two calls one after the other already leave two
  callbacks scheduled: its \<open>startMic\<close> never stops the render loop.
\<close>

theorem two_render_loops:
  "scheduled (two_startMic_p0 mounted) = [5, 11]
   \<and> rafIdRef (two_startMic_p0 mounted) = Some 11
   \<and> edges (two_startMic_p0 mounted) = [(3, Node 2), (9, Node 8)]
   \<and> live_streams (two_startMic_p0 mounted) = [0, 6]
   \<and> micStreamRef (two_startMic_p0 mounted) = Some 6
   \<and> micSourceRef (two_startMic_p0 mounted) = Some 9
   \<and> audioCtxRef (two_startMic_p0 mounted) = Some 7
   \<and> scheduled (run_startMic_av Resolved (run_startMic_av Resolved mounted)) = [5, 11]"
proof -
  let ?s2 = "emit GetUserMedia ((run_stopFilePlayback_p0
            (emit GetUserMedia ((run_stopFilePlayback_p0 mounted)\<lparr>error := None\<rparr>)))\<lparr>error := None\<rparr>)"
  let ?w1 = "clearCanvas (fitCanvas (wireMic ?s2))"
  let ?s3 = "(draw ?w1)\<lparr>mode := Mic, isMicOn := True, isFilePlaying := False, fileName := None\<rparr>"
  let ?w2 = "clearCanvas (fitCanvas (wireMic ?s3))"
  have s2: "next_id ?s2 = 0" "scheduled ?s2 = []" "edges ?s2 = []" "live_streams ?s2 = []" "canvas ?s2 \<noteq> None"
    by (simp_all add: emit_def run_stopFilePlayback_p0 stopFilePlayback_p0_rest_def setMode_def
        stopFilePlayback_p0_head_def stopRenderLoop_def closeContext_def td_finally_def)
  have w1: "canvas ?w1 \<noteq> None" "analyserRef ?w1 \<noteq> None" "dataArrayRef ?w1 \<noteq> None" "next_id ?w1 = 5"
    "scheduled ?w1 = []" "edges ?w1 = [(3, Node 2)]" "live_streams ?w1 = [0]"
    using s2 by (simp_all add: wireMic_fields wireMic_more)
  have s3: "next_id ?s3 = 6" "scheduled ?s3 = [5]" "edges ?s3 = [(3, Node 2)]" "live_streams ?s3 = [0]"
    "canvas ?s3 \<noteq> None"
    using draw_runs[OF w1(1,2,3)] w1 by simp_all
  have w2: "canvas ?w2 \<noteq> None" "analyserRef ?w2 \<noteq> None" "dataArrayRef ?w2 \<noteq> None" "next_id ?w2 = 11"
    "scheduled ?w2 = [5]" "edges ?w2 = [(3, Node 2), (9, Node 8)]" "live_streams ?w2 = [0, 6]"
    "micStreamRef ?w2 = Some 6" "micSourceRef ?w2 = Some 9" "audioCtxRef ?w2 = Some 7"
    using s3 by (simp_all add: wireMic_fields wireMic_more)
  show ?thesis
    unfolding two_startMic_p0_mounted using draw_runs[OF w2(1,2,3)] w2 two_startMic_av by simp
qed

end
